theory Spec2Isabelle
  imports Main
begin

section \<open>JavaScript values used by the completion engine\<close>

text \<open>
  A property that may hold \<open>null\<close> or \<open>undefined\<close> is an \<open>option\<close>; the code never
  tells the two apart (it only tests truthiness or compares with \<open>===\<close> against a
  string). A string is the list of its code units, a column or a step a natural number.
  A string is truthy when it is present and not empty.
\<close>

definition truthy :: "string option \<Rightarrow> bool" where
  "truthy v = (case v of None \<Rightarrow> False | Some s \<Rightarrow> s \<noteq> [])"

text \<open>\<open>a || b\<close> on a nullable string \<open>a\<close> and a string \<open>b\<close>.\<close>

definition orElse :: "string option \<Rightarrow> string \<Rightarrow> string" where
  "orElse a b = (if truthy a then the a else b)"

section \<open>Parser states in the store\<close>

text \<open>
  The lexer works on one live state object that it mutates in place, and on the objects
  it links through \<open>prevState\<close>. Objects live in a store; a reference is an address.
  Only the properties this file reads are kept.
\<close>

type_synonym addr = nat

datatype StateObject = StateObject
  (ob_kind: "string option")
  (ob_step: nat)
  (ob_name: "string option")
  (ob_type: "string option")
  (ob_prevState: "addr option")

type_synonym store = "addr \<Rightarrow> StateObject"

definition emptyStore :: store where
  "emptyStore = (\<lambda>_. StateObject None 0 None None None)"

text \<open>
  Once the scan is over nothing mutates the states any more, and the rest of the engine
  only reads them: a state is then the value of its own properties and of the chain
  reachable through \<open>prevState\<close>.
\<close>

datatype State = State
  (st_kind: "string option")
  (st_step: nat)
  (st_name: "string option")
  (st_type: "string option")
  (st_prevState: "State option")

text \<open>
  The addresses on a \<open>prevState\<close> chain, innermost first. On a cyclic chain the walk
  does not end: the value is \<open>None\<close>.
\<close>

partial_function (option) chainAddrs :: "store \<Rightarrow> addr option \<Rightarrow> addr list option" where
  "chainAddrs h p =
     (case p of
        None \<Rightarrow> Some []
      | Some a \<Rightarrow> Option.bind (chainAddrs h (ob_prevState (h a))) (\<lambda>rest. Some (a # rest)))"

fun linkStates :: "StateObject \<Rightarrow> StateObject list \<Rightarrow> State" where
  "linkStates ob [] = State (ob_kind ob) (ob_step ob) (ob_name ob) (ob_type ob) None"
| "linkStates ob (p # ps) =
     State (ob_kind ob) (ob_step ob) (ob_name ob) (ob_type ob) (Some (linkStates p ps))"

text \<open>What is seen from an object \<open>ob\<close> when the store is \<open>h\<close>.\<close>

definition readState :: "store \<Rightarrow> StateObject \<Rightarrow> State option" where
  "readState h ob =
     map_option (\<lambda>as. linkStates ob (map h as)) (chainAddrs h (ob_prevState ob))"

section \<open>The lexer interface\<close>

text \<open>
  Modelled from the spec: \<open>CharacterStream\<close> (parser/CharacterStream, not among the
  sources). The spec's lexer interface exposes "has more input on this line"
  (\<open>eol\<close>), "current scan column" (\<open>getCurrentPosition\<close>), "column at start of
  current token" (\<open>getStartOfToken\<close>) and "current token literal" (\<open>current\<close>).
\<close>

record CharacterStream =
  cs_sourceText :: string
  cs_start :: nat
  cs_pos :: nat

definition newCharacterStream :: "string \<Rightarrow> CharacterStream" where
  "newCharacterStream text = \<lparr>cs_sourceText = text, cs_start = 0, cs_pos = 0\<rparr>"

definition eol :: "CharacterStream \<Rightarrow> bool" where
  "eol stream = (length (cs_sourceText stream) = cs_pos stream)"

definition getStartOfToken :: "CharacterStream \<Rightarrow> nat" where
  "getStartOfToken stream = cs_start stream"

definition getCurrentPosition :: "CharacterStream \<Rightarrow> nat" where
  "getCurrentPosition stream = cs_pos stream"

definition current :: "CharacterStream \<Rightarrow> string" where
  "current stream =
     take (cs_pos stream - cs_start stream) (drop (cs_start stream) (cs_sourceText stream))"

text \<open>
  The online parser (parser/onlineParser, not among the sources) is a parameter:
  \<open>startState\<close> allocates a fresh state object, \<open>parserToken\<close> (the parser's
  \<open>token\<close> method) consumes one token from the
  stream, mutating the stream and the state objects, and returns the style.
\<close>

record Parser =
  startState :: "store \<Rightarrow> addr \<times> store"
  parserToken :: "CharacterStream \<Rightarrow> addr \<Rightarrow> store \<Rightarrow> string \<times> CharacterStream \<times> store"

record Point =
  row :: nat
  column :: nat

record 's ContextToken =
  tok_start :: nat
  tok_end :: nat
  tok_string :: string
  tok_state :: 's
  tok_style :: string

section \<open>runOnlineParser\<close>

text \<open>\<open>queryText.split('\n')\<close>: one more piece than there are separators.\<close>

fun split :: "char \<Rightarrow> string \<Rightarrow> string list" where
  "split sep [] = [[]]"
| "split sep (c # cs) =
     (if c = sep then [] # split sep cs
      else (case split sep cs of [] \<Rightarrow> [[c]] | l # ls \<Rightarrow> (c # l) # ls))"

text \<open>
  A callback closes over variables of its caller and assigns them; here it threads them
  as an accumulator. It sees the stream, the live state's own properties, the style and
  the line index, and answers whether it returned \<open>'BREAK'\<close>.
\<close>

type_synonym 'acc callbackFnType =
  "'acc \<Rightarrow> CharacterStream \<Rightarrow> StateObject \<Rightarrow> string \<Rightarrow> nat \<Rightarrow> bool \<times> 'acc"

text \<open>The inner \<open>while (!stream.eol())\<close> loop over one line.\<close>

partial_function (option) scanLine ::
  "Parser \<Rightarrow> 'acc callbackFnType \<Rightarrow> nat \<Rightarrow> CharacterStream \<Rightarrow> addr \<Rightarrow> store \<Rightarrow> string \<Rightarrow> 'acc
     \<Rightarrow> (CharacterStream \<times> store \<times> string \<times> 'acc) option" where
  "scanLine P callback i stream state h style acc =
     (if eol stream then Some (stream, h, style, acc)
      else
        (case parserToken P stream state h of
           (style', stream', h') \<Rightarrow>
             (case callback acc stream' (h' state) style' i of
                (brk, acc') \<Rightarrow>
                  if brk then Some (stream', h', style', acc')
                  else scanLine P callback i stream' state h' style' acc')))"

text \<open>The outer \<open>for\<close> loop over the lines; \<open>BREAK\<close> left only the inner loop.\<close>

fun scanLines ::
  "Parser \<Rightarrow> 'acc callbackFnType \<Rightarrow> nat \<Rightarrow> string list \<Rightarrow> CharacterStream \<Rightarrow> addr \<Rightarrow> store \<Rightarrow> string
     \<Rightarrow> 'acc \<Rightarrow> (CharacterStream \<times> addr \<times> store \<times> string \<times> 'acc) option" where
  "scanLines P callback i [] stream state h style acc = Some (stream, state, h, style, acc)"
| "scanLines P callback i (l # ls) stream state h style acc =
     (case scanLine P callback i (newCharacterStream l) state h style acc of
        None \<Rightarrow> None
      | Some (stream', h', style', acc') \<Rightarrow>
          (case (if \<not> truthy (ob_kind (h' state)) then startState P h' else (state, h')) of
             (state', h'') \<Rightarrow> scanLines P callback (i + 1) ls stream' state' h'' style' acc'))"

definition runOnlineParser ::
  "Parser \<Rightarrow> string \<Rightarrow> 'acc callbackFnType \<Rightarrow> 'acc \<Rightarrow> (addr ContextToken \<times> store \<times> 'acc) option" where
  "runOnlineParser P queryText callback acc =
     (case startState P emptyStore of
        (state, h) \<Rightarrow>
          (case scanLines P callback 0 (split (CHR 0x0A) queryText) (newCharacterStream []) state h
                  [] acc of
             None \<Rightarrow> None
           | Some (stream, state', h', style, acc') \<Rightarrow>
               Some (\<lparr>tok_start = getStartOfToken stream,
                      tok_end = getCurrentPosition stream,
                      tok_string = current stream,
                      tok_state = state',
                      tok_style = style\<rparr>, h', acc')))"

section \<open>getTokenAtPosition\<close>

record Captured =
  styleAtCursor :: "string option"
  stateAtCursor :: "StateObject option"
  stringAtCursor :: "string option"

definition noCapture :: Captured where
  "noCapture = \<lparr>styleAtCursor = None, stateAtCursor = None, stringAtCursor = None\<rparr>"

text \<open>
  The callback of \<open>getTokenAtPosition\<close>. The spread \<open>{...state}\<close> copies the live
  object's own properties, the \<open>prevState\<close> reference among them: the snapshot is the
  value \<open>state\<close> of the live object at this moment, and its chain stays in the store.
\<close>

definition atCursor :: "Point \<Rightarrow> Captured callbackFnType" where
  "atCursor cursor acc stream state style index =
     (if index = row cursor then
        (if getCurrentPosition stream > column cursor then (True, acc)
         else (False, \<lparr>styleAtCursor = Some style,
                       stateAtCursor = Some state,
                       stringAtCursor = Some (current stream)\<rparr>))
      else (False, acc))"

definition getTokenAtPosition :: "Parser \<Rightarrow> string \<Rightarrow> Point \<Rightarrow> State ContextToken option" where
  "getTokenAtPosition P queryText cursor =
     (case runOnlineParser P queryText (atCursor cursor) noCapture of
        None \<Rightarrow> None
      | Some (token, h, acc) \<Rightarrow>
          (case readState h (case stateAtCursor acc of
                               Some s \<Rightarrow> s
                             | None \<Rightarrow> h (tok_state token)) of
             None \<Rightarrow> None
           | Some state \<Rightarrow>
               Some \<lparr>tok_start = tok_start token,
                     tok_end = tok_end token,
                     tok_string = orElse (stringAtCursor acc) (tok_string token),
                     tok_state = state,
                     tok_style = orElse (styleAtCursor acc) (tok_style token)\<rparr>))"

section \<open>The schema\<close>

text \<open>
  The schema and its type objects come from the graphql library. A named type object is
  identified by its class and its name (a schema holds one type per name), so \<open>===\<close> on
  types is equality here; an enum type carries its values. What the other methods of a
  type object return (\<open>getFields\<close>, \<open>getInterfaces\<close>, \<open>description\<close>) is recorded in
  the schema, since fields refer back to types.
\<close>

datatype JSValue = JSNull | JSString string | JSOther nat

record GraphQLEnumValue =
  ev_name :: string
  ev_value :: JSValue
  ev_description :: "string option"
  ev_isDeprecated :: "bool option"
  ev_deprecationReason :: "string option"

datatype GraphQLType =
    GraphQLScalarType string
  | GraphQLObjectType string
  | GraphQLInterfaceType string
  | GraphQLUnionType string
  | GraphQLEnumType string "GraphQLEnumValue list"
  | GraphQLInputObjectType string
  | GraphQLList GraphQLType
  | GraphQLNonNull GraphQLType

definition GraphQLBoolean :: GraphQLType where
  "GraphQLBoolean = GraphQLScalarType ''Boolean''"

definition GraphQLString :: GraphQLType where
  "GraphQLString = GraphQLScalarType ''String''"

record GraphQLArgument =
  arg_name :: string
  arg_type :: GraphQLType
  arg_description :: "string option"

text \<open>
  A field of an object or interface type, or of an input object type; an input field has
  no \<open>args\<close> and no deprecation properties.
\<close>

record GraphQLField =
  fd_name :: string
  fd_type :: GraphQLType
  fd_description :: "string option"
  fd_args :: "GraphQLArgument list option"
  fd_isDeprecated :: "bool option"
  fd_deprecationReason :: "string option"

record GraphQLDirective =
  dir_name :: string
  dir_description :: "string option"
  dir_locations :: "string list"
  dir_args :: "GraphQLArgument list"

record GraphQLSchema =
  getQueryType :: "GraphQLType option"
  getMutationType :: "GraphQLType option"
  getSubscriptionType :: "GraphQLType option"
  getTypeMap :: "(string \<times> GraphQLType) list"
  getDirectives :: "GraphQLDirective list"
  getPossibleTypes :: "GraphQLType \<Rightarrow> GraphQLType list"
  doTypesOverlap :: "GraphQLType \<Rightarrow> GraphQLType \<Rightarrow> bool"
  getFields :: "GraphQLType \<Rightarrow> (string \<times> GraphQLField) list"
  getInterfaces :: "GraphQLType \<Rightarrow> GraphQLType list"
  typeDescription :: "GraphQLType \<Rightarrow> string option"

text \<open>\<open>schema.getType(name)\<close> reads the type map, \<open>schema.getDirective(name)\<close> the directives.\<close>

definition getType :: "GraphQLSchema \<Rightarrow> string \<Rightarrow> GraphQLType option" where
  "getType schema n = map_of (getTypeMap schema) n"

definition getDirective :: "GraphQLSchema \<Rightarrow> string \<Rightarrow> GraphQLDirective option" where
  "getDirective schema n = List.find (\<lambda>d. dir_name d = n) (getDirectives schema)"

text \<open>
  The unwrappers and predicates of the graphql library, as the specification names them
  (6: "list/nullable unwrap, named-type unwrap"; glossary: composite types are object,
  interface and union types, "abstract = interface or union"; 4.4: an input type is
  "scalar, enum, input-object, or wrapped forms thereof").
\<close>

fun getNamedType :: "GraphQLType \<Rightarrow> GraphQLType" where
  "getNamedType (GraphQLList t) = getNamedType t"
| "getNamedType (GraphQLNonNull t) = getNamedType t"
| "getNamedType t = t"

fun getNullableType :: "GraphQLType \<Rightarrow> GraphQLType" where
  "getNullableType (GraphQLNonNull t) = t"
| "getNullableType t = t"

fun isAbstractType :: "GraphQLType \<Rightarrow> bool" where
  "isAbstractType (GraphQLInterfaceType n) = True"
| "isAbstractType (GraphQLUnionType n) = True"
| "isAbstractType t = False"

fun isCompositeType :: "GraphQLType \<Rightarrow> bool" where
  "isCompositeType (GraphQLObjectType n) = True"
| "isCompositeType (GraphQLInterfaceType n) = True"
| "isCompositeType (GraphQLUnionType n) = True"
| "isCompositeType t = False"

fun isInputType :: "GraphQLType \<Rightarrow> bool" where
  "isInputType (GraphQLScalarType n) = True"
| "isInputType (GraphQLEnumType n vs) = True"
| "isInputType (GraphQLInputObjectType n) = True"
| "isInputType (GraphQLList t) = isInputType t"
| "isInputType (GraphQLNonNull t) = isInputType t"
| "isInputType t = False"

text \<open>\<open>type.getFields instanceof Function\<close>: the classes that have fields.\<close>

fun hasGetFields :: "GraphQLType \<Rightarrow> bool" where
  "hasGetFields (GraphQLObjectType n) = True"
| "hasGetFields (GraphQLInterfaceType n) = True"
| "hasGetFields (GraphQLInputObjectType n) = True"
| "hasGetFields t = False"

text \<open>\<open>type.name\<close>; the type map holds named types only.\<close>

fun typeName :: "GraphQLType \<Rightarrow> string" where
  "typeName (GraphQLScalarType n) = n"
| "typeName (GraphQLObjectType n) = n"
| "typeName (GraphQLInterfaceType n) = n"
| "typeName (GraphQLUnionType n) = n"
| "typeName (GraphQLEnumType n vs) = n"
| "typeName (GraphQLInputObjectType n) = n"
| "typeName (GraphQLList t) = []"
| "typeName (GraphQLNonNull t) = []"

text \<open>\<open>String(type)\<close>.\<close>

fun typeToString :: "GraphQLType \<Rightarrow> string" where
  "typeToString (GraphQLList t) = ''['' @ typeToString t @ '']''"
| "typeToString (GraphQLNonNull t) = typeToString t @ ''!''"
| "typeToString t = typeName t"

text \<open>
  Modelled from the spec: the three introspection meta-field definitions imported from
  graphql/type/introspection. The spec fixes their names (\<open>__typename\<close>, \<open>__schema\<close>,
  \<open>__type\<close>); the other properties follow the graphql library.
\<close>

definition TypeNameMetaFieldDef :: GraphQLField where
  "TypeNameMetaFieldDef =
     \<lparr>fd_name = ''__typename'', fd_type = GraphQLNonNull GraphQLString,
      fd_description = Some ''The name of the current Object type at runtime.'',
      fd_args = Some [], fd_isDeprecated = None, fd_deprecationReason = None\<rparr>"

definition SchemaMetaFieldDef :: GraphQLField where
  "SchemaMetaFieldDef =
     \<lparr>fd_name = ''__schema'', fd_type = GraphQLNonNull (GraphQLObjectType ''__Schema''),
      fd_description = Some ''Access the current type schema of this server.'',
      fd_args = Some [], fd_isDeprecated = None, fd_deprecationReason = None\<rparr>"

definition TypeMetaFieldDef :: GraphQLField where
  "TypeMetaFieldDef =
     \<lparr>fd_name = ''__type'', fd_type = GraphQLObjectType ''__Type'',
      fd_description = Some ''Request the type information of a single type.'',
      fd_args = Some [\<lparr>arg_name = ''name'', arg_type = GraphQLNonNull GraphQLString,
                        arg_description = None\<rparr>],
      fd_isDeprecated = None, fd_deprecationReason = None\<rparr>"

section \<open>Suggestions and the helpers of autocompleteUtils\<close>

record Suggestion =
  sg_text :: string
  sg_type :: "GraphQLType option"
  sg_description :: "string option"
  sg_isDeprecated :: "bool option"
  sg_deprecationReason :: "string option"

definition textOnly :: "string \<Rightarrow> Suggestion" where
  "textOnly t = \<lparr>sg_text = t, sg_type = None, sg_description = None,
                  sg_isDeprecated = None, sg_deprecationReason = None\<rparr>"

text \<open>
  \<open>hintList\<close>, \<open>getFieldDef\<close> and \<open>getDefinitionState\<close> of autocompleteUtils are not among
  the sources; they are parameters.
\<close>

record Utils =
  hintList :: "Point \<Rightarrow> State ContextToken \<Rightarrow> Suggestion list \<Rightarrow> Suggestion list"
  getFieldDef :: "GraphQLSchema \<Rightarrow> GraphQLType \<Rightarrow> string \<Rightarrow> GraphQLField option"
  getDefinitionState :: "State \<Rightarrow> State option"

text \<open>
  Modelled from the spec: \<open>objectValues\<close> of autocompleteUtils, the values of a map
  (spec 4.4: "the resolved input-object field-definition map's values").
\<close>

definition objectValues :: "(string \<times> 'a) list \<Rightarrow> 'a list" where
  "objectValues object = map snd object"

text \<open>The states of a chain, innermost first.\<close>

fun statesOf :: "State \<Rightarrow> State list" where
  "statesOf (State k s n t None) = [State k s n t None]"
| "statesOf (State k s n t (Some p)) = State k s n t (Some p) # statesOf p"

text \<open>
  Modelled from the spec: \<open>forEachState\<close> of autocompleteUtils (spec 4.2: "Walks the
  ParserState chain outermost-first (i.e., first collects the chain then iterates from
  the root to the given state) and folds type information forward"). The callback
  assigns variables of its caller; here it maps their old values to the new ones.
\<close>

definition forEachState :: "State \<Rightarrow> (State \<Rightarrow> 'a \<Rightarrow> 'a) \<Rightarrow> 'a \<Rightarrow> 'a" where
  "forEachState stack fn acc = fold fn (rev (statesOf stack)) acc"

text \<open>\<open>find\<close> of the source: the first item for which the predicate holds.\<close>

fun find' :: "'a list \<Rightarrow> ('a \<Rightarrow> bool) \<Rightarrow> 'a option" where
  "find' [] predicate = None"
| "find' (x # xs) predicate = (if predicate x then Some x else find' xs predicate)"

section \<open>getTypeInfo\<close>

record TypeInfo =
  ti_type :: "GraphQLType option"
  parentType :: "GraphQLType option"
  inputType :: "GraphQLType option"
  directiveDef :: "GraphQLDirective option"
  enumValue :: "GraphQLEnumValue option"
  fieldDef :: "GraphQLField option"
  argDef :: "GraphQLArgument option"
  argDefs :: "GraphQLArgument list option"
  objectFieldDefs :: "(string \<times> GraphQLField) list option"

definition noTypeInfo :: TypeInfo where
  "noTypeInfo =
     \<lparr>ti_type = None, parentType = None, inputType = None, directiveDef = None,
      enumValue = None, fieldDef = None, argDef = None, argDefs = None,
      objectFieldDefs = None\<rparr>"

text \<open>
  The loop of the \<open>Argument\<close> case: the first definition whose name is the state's name
  is assigned to \<open>argDef\<close>; when none matches, \<open>argDef\<close> is not assigned.
\<close>

fun argLoop :: "GraphQLArgument list \<Rightarrow> string option \<Rightarrow> GraphQLArgument option
    \<Rightarrow> GraphQLArgument option" where
  "argLoop [] n cur = cur"
| "argLoop (a # as) n cur = (if Some (arg_name a) = n then Some a else argLoop as n cur)"

definition jsName :: "string option \<Rightarrow> JSValue" where
  "jsName n = (case n of None \<Rightarrow> JSNull | Some s \<Rightarrow> JSString s)"

text \<open>The callback that \<open>getTypeInfo\<close> hands to \<open>forEachState\<close>: one \<open>switch\<close>.\<close>

definition typeInfoStep :: "Utils \<Rightarrow> GraphQLSchema \<Rightarrow> State \<Rightarrow> TypeInfo \<Rightarrow> TypeInfo" where
  "typeInfoStep U schema state ti =
     (let k = st_kind state in
      if k = Some ''Query'' \<or> k = Some ''ShortQuery'' then ti\<lparr>ti_type := getQueryType schema\<rparr>
      else if k = Some ''Mutation'' then ti\<lparr>ti_type := getMutationType schema\<rparr>
      else if k = Some ''Subscription'' then ti\<lparr>ti_type := getSubscriptionType schema\<rparr>
      else if k = Some ''InlineFragment'' \<or> k = Some ''FragmentDefinition'' then
        (if truthy (st_type state) then ti\<lparr>ti_type := getType schema (the (st_type state))\<rparr>
         else ti)
      else if k = Some ''Field'' \<or> k = Some ''AliasedField'' then
        (if ti_type ti = None \<or> \<not> truthy (st_name state) then ti\<lparr>fieldDef := None\<rparr>
         else
           (let fd = (case parentType ti of
                        Some pt \<Rightarrow> getFieldDef U schema pt (the (st_name state))
                      | None \<Rightarrow> None)
            in ti\<lparr>fieldDef := fd, ti_type := map_option fd_type fd\<rparr>))
      else if k = Some ''SelectionSet'' then
        ti\<lparr>parentType := map_option getNamedType (ti_type ti)\<rparr>
      else if k = Some ''Directive'' then
        ti\<lparr>directiveDef :=
             (if truthy (st_name state) then getDirective schema (the (st_name state))
              else None)\<rparr>
      else if k = Some ''Arguments'' then
        (case st_prevState state of
           None \<Rightarrow> ti\<lparr>argDefs := None\<rparr>
         | Some prev \<Rightarrow>
             if st_kind prev = Some ''Field'' then
               ti\<lparr>argDefs := Option.bind (fieldDef ti) fd_args\<rparr>
             else if st_kind prev = Some ''Directive'' then
               ti\<lparr>argDefs := map_option dir_args (directiveDef ti)\<rparr>
             else if st_kind prev = Some ''AliasedField'' then
               (if \<not> truthy (st_name prev) then ti\<lparr>argDefs := None\<rparr>
                else
                  (case (case parentType ti of
                           Some pt \<Rightarrow> getFieldDef U schema pt (the (st_name prev))
                         | None \<Rightarrow> None) of
                     None \<Rightarrow> ti\<lparr>argDefs := None\<rparr>
                   | Some field \<Rightarrow> ti\<lparr>argDefs := fd_args field\<rparr>))
             else ti\<lparr>argDefs := None\<rparr>)
      else if k = Some ''Argument'' then
        (let ad = (case argDefs ti of
                     Some defs \<Rightarrow> argLoop defs (st_name state) (argDef ti)
                   | None \<Rightarrow> argDef ti)
         in ti\<lparr>argDef := ad, inputType := map_option arg_type ad\<rparr>)
      else if k = Some ''EnumValue'' then
        ti\<lparr>enumValue :=
             (case map_option getNamedType (inputType ti) of
                Some (GraphQLEnumType n vs) \<Rightarrow>
                  find' vs (\<lambda>val. ev_value val = jsName (st_name state))
              | _ \<Rightarrow> None)\<rparr>
      else if k = Some ''ListValue'' then
        ti\<lparr>inputType :=
             (case map_option getNullableType (inputType ti) of
                Some (GraphQLList ofType) \<Rightarrow> Some ofType
              | _ \<Rightarrow> None)\<rparr>
      else if k = Some ''ObjectValue'' then
        ti\<lparr>objectFieldDefs :=
             (case map_option getNamedType (inputType ti) of
                Some (GraphQLInputObjectType n) \<Rightarrow>
                  Some (getFields schema (GraphQLInputObjectType n))
              | _ \<Rightarrow> None)\<rparr>
      else if k = Some ''ObjectField'' then
        (let objectField =
               (if truthy (st_name state) \<and> objectFieldDefs ti \<noteq> None
                then map_of (the (objectFieldDefs ti)) (the (st_name state))
                else None)
         in ti\<lparr>inputType := map_option fd_type objectField\<rparr>)
      else if k = Some ''NamedType'' then
        (if truthy (st_name state) then ti\<lparr>ti_type := getType schema (the (st_name state))\<rparr>
         else ti)
      else ti)"

definition getTypeInfo :: "Utils \<Rightarrow> GraphQLSchema \<Rightarrow> State \<Rightarrow> TypeInfo" where
  "getTypeInfo U schema tokenState = forEachState tokenState (typeInfoStep U schema) noTypeInfo"

section \<open>The suggestion generators\<close>

definition getSuggestionsForFieldNames ::
  "Utils \<Rightarrow> Point \<Rightarrow> State ContextToken \<Rightarrow> TypeInfo \<Rightarrow> GraphQLSchema \<Rightarrow> Suggestion list" where
  "getSuggestionsForFieldNames U cursor token typeInfo schema =
     (case parentType typeInfo of
        Some pt \<Rightarrow>
          (let fields0 = (if hasGetFields pt then objectValues (getFields schema pt) else []);
               fields1 = (if isAbstractType pt then fields0 @ [TypeNameMetaFieldDef] else fields0);
               fields2 = (if Some pt = getQueryType schema
                          then fields1 @ [SchemaMetaFieldDef, TypeMetaFieldDef] else fields1)
           in hintList U cursor token
                (map (\<lambda>field. \<lparr>sg_text = fd_name field,
                                sg_type = Some (fd_type field),
                                sg_description = fd_description field,
                                sg_isDeprecated = fd_isDeprecated field,
                                sg_deprecationReason = fd_deprecationReason field\<rparr>) fields2))
      | None \<Rightarrow> [])"

definition getSuggestionsForInputValues ::
  "Utils \<Rightarrow> Point \<Rightarrow> State ContextToken \<Rightarrow> TypeInfo \<Rightarrow> Suggestion list" where
  "getSuggestionsForInputValues U cursor token typeInfo =
     (let namedInputType = map_option getNamedType (inputType typeInfo) in
      case namedInputType of
        Some (GraphQLEnumType n values) \<Rightarrow>
          hintList U cursor token
            (map (\<lambda>val. \<lparr>sg_text = ev_name val,
                          sg_type = namedInputType,
                          sg_description = ev_description val,
                          sg_isDeprecated = ev_isDeprecated val,
                          sg_deprecationReason = ev_deprecationReason val\<rparr>) values)
      | _ \<Rightarrow>
          if namedInputType = Some GraphQLBoolean then
            hintList U cursor token
              [\<lparr>sg_text = ''true'', sg_type = Some GraphQLBoolean,
                sg_description = Some ''Not false.'',
                sg_isDeprecated = None, sg_deprecationReason = None\<rparr>,
               \<lparr>sg_text = ''false'', sg_type = Some GraphQLBoolean,
                sg_description = Some ''Not true.'',
                sg_isDeprecated = None, sg_deprecationReason = None\<rparr>]
          else [])"

text \<open>\<open>object[key] = value\<close> on a map kept in insertion order.\<close>

fun setProperty :: "string \<Rightarrow> 'a \<Rightarrow> (string \<times> 'a) list \<Rightarrow> (string \<times> 'a) list" where
  "setProperty key v [] = [(key, v)]"
| "setProperty key v (p # ps) =
     (if fst p = key then (key, v) # ps else p # setProperty key v ps)"

definition getSuggestionsForFragmentTypeConditions ::
  "Utils \<Rightarrow> Point \<Rightarrow> State ContextToken \<Rightarrow> TypeInfo \<Rightarrow> GraphQLSchema \<Rightarrow> Suggestion list" where
  "getSuggestionsForFragmentTypeConditions U cursor token typeInfo schema =
     (let possibleTypes =
            (case parentType typeInfo of
               Some pt \<Rightarrow>
                 if isAbstractType pt then
                   (let possibleObjTypes = getPossibleTypes schema pt;
                        possibleIfaceMap =
                          fold (\<lambda>type m.
                                  fold (\<lambda>iface. setProperty (typeName iface) iface)
                                    (getInterfaces schema type) m)
                            possibleObjTypes []
                    in possibleObjTypes @ objectValues possibleIfaceMap)
                 else [pt]
             | None \<Rightarrow> filter isCompositeType (objectValues (getTypeMap schema)))
      in hintList U cursor token
           (map (\<lambda>type. \<lparr>sg_text = typeToString type,
                          sg_type = None,
                          sg_description =
                            Some (orElse (typeDescription schema (getNamedType type)) []),
                          sg_isDeprecated = None, sg_deprecationReason = None\<rparr>)
              possibleTypes))"

record FragmentDefinitionNode =
  frag_name :: string
  frag_typeCondition :: string

text \<open>The callback of \<open>getFragmentDefinitions\<close>; it never returns \<open>'BREAK'\<close>.\<close>

definition harvestFragment :: "FragmentDefinitionNode list callbackFnType" where
  "harvestFragment fragmentDefs stream state style index =
     (False,
      if ob_kind state = Some ''FragmentDefinition'' \<and> truthy (ob_name state)
         \<and> truthy (ob_type state)
      then fragmentDefs @ [\<lparr>frag_name = the (ob_name state),
                            frag_typeCondition = the (ob_type state)\<rparr>]
      else fragmentDefs)"

definition getFragmentDefinitions :: "Parser \<Rightarrow> string \<Rightarrow> FragmentDefinitionNode list option" where
  "getFragmentDefinitions P queryText =
     map_option (\<lambda>(token, h, fragmentDefs). fragmentDefs)
       (runOnlineParser P queryText harvestFragment [])"

text \<open>The filter of \<open>getSuggestionsForFragmentSpread\<close>.\<close>

definition relevantFrag ::
  "GraphQLSchema \<Rightarrow> State option \<Rightarrow> TypeInfo \<Rightarrow> FragmentDefinitionNode \<Rightarrow> bool" where
  "relevantFrag schema defState typeInfo frag =
     (case map_of (getTypeMap schema) (frag_typeCondition frag) of
        None \<Rightarrow> False
      | Some fragType \<Rightarrow>
          \<not> (case defState of
                None \<Rightarrow> False
              | Some d \<Rightarrow> st_kind d = Some ''FragmentDefinition''
                          \<and> st_name d = Some (frag_name frag))
          \<and> (case parentType typeInfo of
                None \<Rightarrow> False
              | Some pt \<Rightarrow> isCompositeType pt \<and> isCompositeType fragType
                           \<and> doTypesOverlap schema pt fragType))"

definition getSuggestionsForFragmentSpread ::
  "Utils \<Rightarrow> Parser \<Rightarrow> Point \<Rightarrow> State ContextToken \<Rightarrow> TypeInfo \<Rightarrow> GraphQLSchema \<Rightarrow> string
     \<Rightarrow> Suggestion list option" where
  "getSuggestionsForFragmentSpread U P cursor token typeInfo schema queryText =
     (let typeMap = getTypeMap schema;
          defState = getDefinitionState U (tok_state token)
      in case getFragmentDefinitions P queryText of
           None \<Rightarrow> None
         | Some fragments \<Rightarrow>
             (let relevantFrags = filter (relevantFrag schema defState typeInfo) fragments
              in Some (hintList U cursor token
                   (map (\<lambda>frag. \<lparr>sg_text = frag_name frag,
                                  sg_type = map_of typeMap (frag_typeCondition frag),
                                  sg_description =
                                    Some (''fragment '' @ frag_name frag @ '' on ''
                                          @ frag_typeCondition frag),
                                  sg_isDeprecated = None,
                                  sg_deprecationReason = None\<rparr>) relevantFrags))))"

definition getSuggestionsForVariableDefinition ::
  "Utils \<Rightarrow> Point \<Rightarrow> State ContextToken \<Rightarrow> GraphQLSchema \<Rightarrow> Suggestion list" where
  "getSuggestionsForVariableDefinition U cursor token schema =
     (let inputTypes = filter isInputType (objectValues (getTypeMap schema))
      in hintList U cursor token
           (map (\<lambda>type. \<lparr>sg_text = typeName type, sg_type = None,
                          sg_description = typeDescription schema type,
                          sg_isDeprecated = None, sg_deprecationReason = None\<rparr>) inputTypes))"

definition canUseDirective :: "string \<Rightarrow> GraphQLDirective \<Rightarrow> bool" where
  "canUseDirective k directive =
     (let locations = dir_locations directive in
      if k = ''Query'' then ''QUERY'' \<in> set locations
      else if k = ''Mutation'' then ''MUTATION'' \<in> set locations
      else if k = ''Subscription'' then ''SUBSCRIPTION'' \<in> set locations
      else if k = ''Field'' \<or> k = ''AliasedField'' then ''FIELD'' \<in> set locations
      else if k = ''FragmentDefinition'' then ''FRAGMENT_DEFINITION'' \<in> set locations
      else if k = ''FragmentSpread'' then ''FRAGMENT_SPREAD'' \<in> set locations
      else if k = ''InlineFragment'' then ''INLINE_FRAGMENT'' \<in> set locations
      else False)"

definition getSuggestionsForDirective ::
  "Utils \<Rightarrow> Point \<Rightarrow> State ContextToken \<Rightarrow> State \<Rightarrow> GraphQLSchema \<Rightarrow> Suggestion list" where
  "getSuggestionsForDirective U cursor token state schema =
     (case st_prevState state of
        Some prev \<Rightarrow>
          if truthy (st_kind prev) then
            (let stateKind = the (st_kind prev);
                 directives = filter (canUseDirective stateKind) (getDirectives schema)
             in hintList U cursor token
                  (map (\<lambda>directive. \<lparr>sg_text = dir_name directive, sg_type = None,
                                       sg_description = dir_description directive,
                                       sg_isDeprecated = None,
                                       sg_deprecationReason = None\<rparr>) directives))
          else []
      | None \<Rightarrow> [])"

section \<open>getAutocompleteSuggestions\<close>

text \<open>
  The dispatch of \<open>getAutocompleteSuggestions\<close> on the kind and step of \<open>state\<close>, with
  the type information already computed.
\<close>

definition suggestionsForState ::
  "Utils \<Rightarrow> Parser \<Rightarrow> GraphQLSchema \<Rightarrow> string \<Rightarrow> Point \<Rightarrow> State ContextToken \<Rightarrow> State \<Rightarrow> TypeInfo
     \<Rightarrow> Suggestion list option" where
  "suggestionsForState U P schema queryText cursor token state typeInfo =
     (let k = st_kind state;
          stp = st_step state
      in
      if k = Some ''Document'' then
        Some (hintList U cursor token
                [textOnly ''query'', textOnly ''mutation'', textOnly ''subscription'',
                 textOnly ''fragment'', textOnly ''{''])
      else if k = Some ''SelectionSet'' \<or> k = Some ''Field'' \<or> k = Some ''AliasedField'' then
        Some (getSuggestionsForFieldNames U cursor token typeInfo schema)
      else if (k = Some ''Arguments'' \<or> (k = Some ''Argument'' \<and> stp = 0))
              \<and> argDefs typeInfo \<noteq> None then
        Some (hintList U cursor token
                (map (\<lambda>a. \<lparr>sg_text = arg_name a, sg_type = Some (arg_type a),
                            sg_description = arg_description a,
                            sg_isDeprecated = None, sg_deprecationReason = None\<rparr>)
                   (the (argDefs typeInfo))))
      else if (k = Some ''ObjectValue'' \<or> (k = Some ''ObjectField'' \<and> stp = 0))
              \<and> objectFieldDefs typeInfo \<noteq> None then
        Some (hintList U cursor token
                (map (\<lambda>field. \<lparr>sg_text = fd_name field, sg_type = Some (fd_type field),
                                sg_description = fd_description field,
                                sg_isDeprecated = None, sg_deprecationReason = None\<rparr>)
                   (objectValues (the (objectFieldDefs typeInfo)))))
      else if k = Some ''EnumValue'' \<or> (k = Some ''ListValue'' \<and> stp = 1)
              \<or> (k = Some ''ObjectField'' \<and> stp = 2)
              \<or> (k = Some ''Argument'' \<and> stp = 2) then
        Some (getSuggestionsForInputValues U cursor token typeInfo)
      else if (k = Some ''TypeCondition'' \<and> stp = 1)
              \<or> (k = Some ''NamedType''
                  \<and> (case st_prevState state of
                        None \<Rightarrow> False
                      | Some prev \<Rightarrow> st_kind prev = Some ''TypeCondition'')) then
        Some (getSuggestionsForFragmentTypeConditions U cursor token typeInfo schema)
      else if k = Some ''FragmentSpread'' \<and> stp = 1 then
        getSuggestionsForFragmentSpread U P cursor token typeInfo schema queryText
      else if (k = Some ''VariableDefinition'' \<and> stp = 2)
              \<or> (k = Some ''ListType'' \<and> stp = 1)
              \<or> (k = Some ''NamedType''
                  \<and> (case st_prevState state of
                        None \<Rightarrow> False
                      | Some prev \<Rightarrow> st_kind prev = Some ''VariableDefinition''
                                     \<or> st_kind prev = Some ''ListType'')) then
        Some (getSuggestionsForVariableDefinition U cursor token schema)
      else if k = Some ''Directive'' then
        Some (getSuggestionsForDirective U cursor token state schema)
      else Some [])"

text \<open>
  The head of \<open>getAutocompleteSuggestions\<close> once the token is located: an \<open>Invalid\<close>
  state is unwrapped to its \<open>prevState\<close>, the type information is computed from
  \<open>token.state\<close>.
\<close>

definition suggestionsAtToken ::
  "Utils \<Rightarrow> Parser \<Rightarrow> GraphQLSchema \<Rightarrow> string \<Rightarrow> Point \<Rightarrow> State ContextToken
     \<Rightarrow> Suggestion list option" where
  "suggestionsAtToken U P schema queryText cursor token =
     (case (if st_kind (tok_state token) = Some ''Invalid''
            then st_prevState (tok_state token) else Some (tok_state token)) of
        None \<Rightarrow> Some []
      | Some state \<Rightarrow>
          suggestionsForState U P schema queryText cursor token state
            (getTypeInfo U schema (tok_state token)))"

section \<open>What the engine needs from the lexer\<close>

text \<open>
  Each call of the lexer on a stream with input left consumes at least one character of
  the same line and stays within it.
\<close>

definition lexer_advances :: "Parser \<Rightarrow> bool" where
  "lexer_advances P =
     (\<forall>stream state h. cs_pos stream < length (cs_sourceText stream) \<longrightarrow>
        (case parserToken P stream state h of
           (style, stream', h') \<Rightarrow>
             cs_sourceText stream' = cs_sourceText stream \<and>
             cs_pos stream < cs_pos stream' \<and>
             cs_pos stream' \<le> length (cs_sourceText stream')))"

text \<open>Spec 3: "the ParserState chain for any token is acyclic and finite".\<close>

definition finiteChains :: "store \<Rightarrow> bool" where
  "finiteChains h = wf {(p, a). ob_prevState (h a) = Some p}"

definition lexer_keeps_chains :: "Parser \<Rightarrow> bool" where
  "lexer_keeps_chains P =
     ((\<forall>h. finiteChains h \<longrightarrow> finiteChains (snd (startState P h))) \<and>
      (\<forall>stream state h.
         finiteChains h \<longrightarrow> finiteChains (snd (snd (parserToken P stream state h)))))"

section \<open>The directive locations as the specification lists them\<close>

definition locationOfKind :: "string \<Rightarrow> string option" where
  "locationOfKind =
     map_of [(''Query'', ''QUERY''), (''Mutation'', ''MUTATION''),
             (''Subscription'', ''SUBSCRIPTION''), (''Field'', ''FIELD''),
             (''AliasedField'', ''FIELD''), (''FragmentDefinition'', ''FRAGMENT_DEFINITION''),
             (''FragmentSpread'', ''FRAGMENT_SPREAD''), (''InlineFragment'', ''INLINE_FRAGMENT'')]"

definition directiveAllowed :: "string \<Rightarrow> GraphQLDirective \<Rightarrow> bool" where
  "directiveAllowed k directive =
     (case locationOfKind k of
        None \<Rightarrow> False
      | Some location \<Rightarrow> location \<in> set (dir_locations directive))"

section \<open>Reads that JavaScript may refuse\<close>

text \<open>
  A property read or a method call on \<open>null\<close> or \<open>undefined\<close> raises a TypeError, and so
  does the call of a method that the object does not have. The functions of this section
  are the functions above with every such read written as an operation that may raise;
  a guard of the source is a test that stands before the read. A result \<open>Inl TypeError\<close>
  is an exception that leaves the function. The lexer, the schema and the helpers of
  autocompleteUtils are taken not to raise.
\<close>

datatype JSError = TypeError

definition readProp :: "'a option \<Rightarrow> ('a \<Rightarrow> 'b) \<Rightarrow> JSError + 'b" where
  "readProp ob p = (case ob of None \<Rightarrow> Inl TypeError | Some x \<Rightarrow> Inr (p x))"

text \<open>Sequencing: an exception of the first part skips the second.\<close>

definition thenE :: "JSError + 'a \<Rightarrow> ('a \<Rightarrow> JSError + 'b) \<Rightarrow> JSError + 'b" where
  "thenE m f = (case m of Inl e \<Rightarrow> Inl e | Inr x \<Rightarrow> f x)"

definition thenO ::
  "JSError + 'a \<Rightarrow> ('a \<Rightarrow> (JSError + 'b) option) \<Rightarrow> (JSError + 'b) option" where
  "thenO m f = (case m of Inl e \<Rightarrow> Some (Inl e) | Inr x \<Rightarrow> f x)"

fun foldE :: "('a \<Rightarrow> 'b \<Rightarrow> JSError + 'b) \<Rightarrow> 'a list \<Rightarrow> 'b \<Rightarrow> JSError + 'b" where
  "foldE f [] acc = Inr acc"
| "foldE f (x # xs) acc = thenE (f x acc) (foldE f xs)"

fun mapE :: "('a \<Rightarrow> JSError + 'b) \<Rightarrow> 'a list \<Rightarrow> JSError + 'b list" where
  "mapE f [] = Inr []"
| "mapE f (x # xs) = thenE (f x) (\<lambda>y. thenE (mapE f xs) (\<lambda>ys. Inr (y # ys)))"

fun filterE :: "('a \<Rightarrow> JSError + bool) \<Rightarrow> 'a list \<Rightarrow> JSError + 'a list" where
  "filterE f [] = Inr []"
| "filterE f (x # xs) =
     thenE (f x) (\<lambda>keep. thenE (filterE f xs) (\<lambda>ys. Inr (if keep then x # ys else ys)))"

text \<open>\<open>x instanceof C\<close> on a value that may be absent.\<close>

definition instanceOfEnum :: "GraphQLType option \<Rightarrow> bool" where
  "instanceOfEnum t = (case t of Some (GraphQLEnumType n vs) \<Rightarrow> True | _ \<Rightarrow> False)"

definition instanceOfList :: "GraphQLType option \<Rightarrow> bool" where
  "instanceOfList t = (case t of Some (GraphQLList ofType) \<Rightarrow> True | _ \<Rightarrow> False)"

definition instanceOfInputObject :: "GraphQLType option \<Rightarrow> bool" where
  "instanceOfInputObject t = (case t of Some (GraphQLInputObjectType n) \<Rightarrow> True | _ \<Rightarrow> False)"

text \<open>\<open>isAbstractType(type)\<close> of the graphql library on a value that may be absent.\<close>

definition isAbstractTypeN :: "GraphQLType option \<Rightarrow> bool" where
  "isAbstractTypeN t = (case t of Some x \<Rightarrow> isAbstractType x | None \<Rightarrow> False)"

text \<open>\<open>type.getValues()\<close>, \<open>type.getFields()\<close> and the property \<open>type.ofType\<close>.\<close>

definition callGetValues :: "GraphQLType option \<Rightarrow> JSError + GraphQLEnumValue list" where
  "callGetValues t = (case t of Some (GraphQLEnumType n vs) \<Rightarrow> Inr vs | _ \<Rightarrow> Inl TypeError)"

definition callGetFields ::
  "GraphQLSchema \<Rightarrow> GraphQLType option \<Rightarrow> JSError + (string \<times> GraphQLField) list" where
  "callGetFields schema t =
     (case t of
        Some x \<Rightarrow> if hasGetFields x then Inr (getFields schema x) else Inl TypeError
      | None \<Rightarrow> Inl TypeError)"

fun ofType :: "GraphQLType \<Rightarrow> GraphQLType option" where
  "ofType (GraphQLList t) = Some t"
| "ofType (GraphQLNonNull t) = Some t"
| "ofType t = None"

subsection \<open>getTypeInfo\<close>

text \<open>The callback of \<open>getTypeInfo\<close>, case by case as in the source.\<close>

definition typeInfoStepE ::
  "Utils \<Rightarrow> GraphQLSchema \<Rightarrow> State \<Rightarrow> TypeInfo \<Rightarrow> JSError + TypeInfo" where
  "typeInfoStepE U schema state ti =
     (let k = st_kind state in
      if k = Some ''Query'' \<or> k = Some ''ShortQuery'' then
        Inr (ti\<lparr>ti_type := getQueryType schema\<rparr>)
      else if k = Some ''Mutation'' then Inr (ti\<lparr>ti_type := getMutationType schema\<rparr>)
      else if k = Some ''Subscription'' then Inr (ti\<lparr>ti_type := getSubscriptionType schema\<rparr>)
      else if k = Some ''InlineFragment'' \<or> k = Some ''FragmentDefinition'' then
        (if truthy (st_type state)
         then Inr (ti\<lparr>ti_type := getType schema (the (st_type state))\<rparr>)
         else Inr ti)
      else if k = Some ''Field'' \<or> k = Some ''AliasedField'' then
        (if ti_type ti = None \<or> \<not> truthy (st_name state) then Inr (ti\<lparr>fieldDef := None\<rparr>)
         else
           (let fd = (case parentType ti of
                        Some pt \<Rightarrow> getFieldDef U schema pt (the (st_name state))
                      | None \<Rightarrow> None)
            in thenE (if fd \<noteq> None then thenE (readProp fd fd_type) (\<lambda>t. Inr (Some t))
                      else Inr None)
                 (\<lambda>t. Inr (ti\<lparr>fieldDef := fd, ti_type := t\<rparr>))))
      else if k = Some ''SelectionSet'' then
        Inr (ti\<lparr>parentType := map_option getNamedType (ti_type ti)\<rparr>)
      else if k = Some ''Directive'' then
        Inr (ti\<lparr>directiveDef :=
                  (if truthy (st_name state) then getDirective schema (the (st_name state))
                   else None)\<rparr>)
      else if k = Some ''Arguments'' then
        (if st_prevState state = None then Inr (ti\<lparr>argDefs := None\<rparr>)
         else
           thenE (readProp (st_prevState state) st_kind)
             (\<lambda>pk.
                if pk = Some ''Field'' then
                  thenE (if fieldDef ti \<noteq> None then readProp (fieldDef ti) fd_args
                         else Inr None)
                    (\<lambda>a. Inr (ti\<lparr>argDefs := a\<rparr>))
                else if pk = Some ''Directive'' then
                  thenE (if directiveDef ti \<noteq> None
                         then thenE (readProp (directiveDef ti) dir_args) (\<lambda>a. Inr (Some a))
                         else Inr None)
                    (\<lambda>a. Inr (ti\<lparr>argDefs := a\<rparr>))
                else if pk = Some ''AliasedField'' then
                  thenE (if st_prevState state \<noteq> None
                         then readProp (st_prevState state) st_name else Inr None)
                    (\<lambda>nm.
                       if \<not> truthy nm then Inr (ti\<lparr>argDefs := None\<rparr>)
                       else
                         (let field = (case parentType ti of
                                         Some pt \<Rightarrow> getFieldDef U schema pt (the nm)
                                       | None \<Rightarrow> None)
                          in if field = None then Inr (ti\<lparr>argDefs := None\<rparr>)
                             else thenE (readProp field fd_args)
                                    (\<lambda>a. Inr (ti\<lparr>argDefs := a\<rparr>))))
                else Inr (ti\<lparr>argDefs := None\<rparr>)))
      else if k = Some ''Argument'' then
        thenE (if argDefs ti \<noteq> None
               then readProp (argDefs ti) (\<lambda>defs. argLoop defs (st_name state) (argDef ti))
               else Inr (argDef ti))
          (\<lambda>ad.
             thenE (if ad \<noteq> None then thenE (readProp ad arg_type) (\<lambda>t. Inr (Some t))
                    else Inr None)
               (\<lambda>it. Inr (ti\<lparr>argDef := ad, inputType := it\<rparr>)))
      else if k = Some ''EnumValue'' then
        (let enumType = map_option getNamedType (inputType ti) in
         thenE (if instanceOfEnum enumType
                then thenE (callGetValues enumType)
                       (\<lambda>vs. Inr (find' vs (\<lambda>val. ev_value val = jsName (st_name state))))
                else Inr None)
           (\<lambda>ev. Inr (ti\<lparr>enumValue := ev\<rparr>)))
      else if k = Some ''ListValue'' then
        (let nullableType = map_option getNullableType (inputType ti) in
         thenE (if instanceOfList nullableType then readProp nullableType ofType else Inr None)
           (\<lambda>t. Inr (ti\<lparr>inputType := t\<rparr>)))
      else if k = Some ''ObjectValue'' then
        (let objectType = map_option getNamedType (inputType ti) in
         thenE (if instanceOfInputObject objectType
                then thenE (callGetFields schema objectType) (\<lambda>fs. Inr (Some fs))
                else Inr None)
           (\<lambda>fs. Inr (ti\<lparr>objectFieldDefs := fs\<rparr>)))
      else if k = Some ''ObjectField'' then
        thenE (if truthy (st_name state) \<and> objectFieldDefs ti \<noteq> None
               then readProp (objectFieldDefs ti) (\<lambda>defs. map_of defs (the (st_name state)))
               else Inr None)
          (\<lambda>objectField.
             thenE (if objectField \<noteq> None
                    then thenE (readProp objectField fd_type) (\<lambda>t. Inr (Some t))
                    else Inr None)
               (\<lambda>it. Inr (ti\<lparr>inputType := it\<rparr>)))
      else if k = Some ''NamedType'' then
        (if truthy (st_name state)
         then Inr (ti\<lparr>ti_type := getType schema (the (st_name state))\<rparr>)
         else Inr ti)
      else Inr ti)"

text \<open>
  Modelled from the spec: \<open>forEachState\<close> of autocompleteUtils, as above; an exception of
  the callback ends the traversal.
\<close>

definition forEachStateE ::
  "State \<Rightarrow> (State \<Rightarrow> 'a \<Rightarrow> JSError + 'a) \<Rightarrow> 'a \<Rightarrow> JSError + 'a" where
  "forEachStateE stack fn acc = foldE fn (rev (statesOf stack)) acc"

definition getTypeInfoE :: "Utils \<Rightarrow> GraphQLSchema \<Rightarrow> State \<Rightarrow> JSError + TypeInfo" where
  "getTypeInfoE U schema tokenState =
     forEachStateE tokenState (typeInfoStepE U schema) noTypeInfo"

subsection \<open>The generators\<close>

definition getSuggestionsForFieldNamesE ::
  "Utils \<Rightarrow> Point \<Rightarrow> State ContextToken \<Rightarrow> TypeInfo \<Rightarrow> GraphQLSchema
     \<Rightarrow> JSError + Suggestion list" where
  "getSuggestionsForFieldNamesE U cursor token typeInfo schema =
     (if parentType typeInfo \<noteq> None then
        (let pt = parentType typeInfo in
         thenE (thenE (readProp pt hasGetFields)
                  (\<lambda>isFunction.
                     if isFunction
                     then thenE (callGetFields schema pt) (\<lambda>fs. Inr (objectValues fs))
                     else Inr []))
           (\<lambda>fields0.
              (let fields1 = (if isAbstractTypeN pt then fields0 @ [TypeNameMetaFieldDef]
                              else fields0);
                   fields2 = (if pt = getQueryType schema
                              then fields1 @ [SchemaMetaFieldDef, TypeMetaFieldDef]
                              else fields1)
               in Inr (hintList U cursor token
                    (map (\<lambda>field. \<lparr>sg_text = fd_name field,
                                    sg_type = Some (fd_type field),
                                    sg_description = fd_description field,
                                    sg_isDeprecated = fd_isDeprecated field,
                                    sg_deprecationReason = fd_deprecationReason field\<rparr>)
                       fields2)))))
      else Inr [])"

definition getSuggestionsForInputValuesE ::
  "Utils \<Rightarrow> Point \<Rightarrow> State ContextToken \<Rightarrow> TypeInfo \<Rightarrow> JSError + Suggestion list" where
  "getSuggestionsForInputValuesE U cursor token typeInfo =
     (let namedInputType = map_option getNamedType (inputType typeInfo) in
      if instanceOfEnum namedInputType then
        thenE (callGetValues namedInputType)
          (\<lambda>values.
             Inr (hintList U cursor token
                    (map (\<lambda>val. \<lparr>sg_text = ev_name val,
                                  sg_type = namedInputType,
                                  sg_description = ev_description val,
                                  sg_isDeprecated = ev_isDeprecated val,
                                  sg_deprecationReason = ev_deprecationReason val\<rparr>) values)))
      else if namedInputType = Some GraphQLBoolean then
        Inr (hintList U cursor token
               [\<lparr>sg_text = ''true'', sg_type = Some GraphQLBoolean,
                 sg_description = Some ''Not false.'',
                 sg_isDeprecated = None, sg_deprecationReason = None\<rparr>,
                \<lparr>sg_text = ''false'', sg_type = Some GraphQLBoolean,
                 sg_description = Some ''Not true.'',
                 sg_isDeprecated = None, sg_deprecationReason = None\<rparr>])
      else Inr [])"

definition getSuggestionsForFragmentTypeConditionsE ::
  "Utils \<Rightarrow> Point \<Rightarrow> State ContextToken \<Rightarrow> TypeInfo \<Rightarrow> GraphQLSchema
     \<Rightarrow> JSError + Suggestion list" where
  "getSuggestionsForFragmentTypeConditionsE U cursor token typeInfo schema =
     (let possibleTypes =
            (case parentType typeInfo of
               Some pt \<Rightarrow>
                 if isAbstractType pt then
                   (let possibleObjTypes = getPossibleTypes schema pt;
                        possibleIfaceMap =
                          fold (\<lambda>type m.
                                  fold (\<lambda>iface. setProperty (typeName iface) iface)
                                    (getInterfaces schema type) m)
                            possibleObjTypes []
                    in possibleObjTypes @ objectValues possibleIfaceMap)
                 else [pt]
             | None \<Rightarrow> filter isCompositeType (objectValues (getTypeMap schema)))
      in thenE (mapE (\<lambda>type.
                  (let namedType = Some (getNamedType type) in
                   thenE (if namedType \<noteq> None
                          then readProp namedType (typeDescription schema) else Inr None)
                     (\<lambda>d. Inr \<lparr>sg_text = typeToString type,
                                sg_type = None,
                                sg_description = Some (orElse d []),
                                sg_isDeprecated = None, sg_deprecationReason = None\<rparr>)))
                possibleTypes)
           (\<lambda>list. Inr (hintList U cursor token list)))"

definition relevantFragE ::
  "GraphQLSchema \<Rightarrow> State option \<Rightarrow> TypeInfo \<Rightarrow> FragmentDefinitionNode \<Rightarrow> JSError + bool" where
  "relevantFragE schema defState typeInfo frag =
     (case map_of (getTypeMap schema) (frag_typeCondition frag) of
        None \<Rightarrow> Inr False
      | Some fragType \<Rightarrow>
          thenE (if defState \<noteq> None then
                   thenE (readProp defState st_kind)
                     (\<lambda>k. if k = Some ''FragmentDefinition''
                          then thenE (readProp defState st_name)
                                 (\<lambda>n. Inr (n = Some (frag_name frag)))
                          else Inr False)
                 else Inr False)
            (\<lambda>cyclic.
               Inr (\<not> cyclic
                    \<and> (case parentType typeInfo of
                          None \<Rightarrow> False
                        | Some pt \<Rightarrow> isCompositeType pt \<and> isCompositeType fragType
                                     \<and> doTypesOverlap schema pt fragType))))"

definition getSuggestionsForFragmentSpreadE ::
  "Utils \<Rightarrow> Parser \<Rightarrow> Point \<Rightarrow> State ContextToken \<Rightarrow> TypeInfo \<Rightarrow> GraphQLSchema \<Rightarrow> string
     \<Rightarrow> (JSError + Suggestion list) option" where
  "getSuggestionsForFragmentSpreadE U P cursor token typeInfo schema queryText =
     (let typeMap = getTypeMap schema;
          defState = getDefinitionState U (tok_state token)
      in case getFragmentDefinitions P queryText of
           None \<Rightarrow> None
         | Some fragments \<Rightarrow>
             Some (thenE (filterE (relevantFragE schema defState typeInfo) fragments)
                     (\<lambda>relevantFrags.
                        Inr (hintList U cursor token
                          (map (\<lambda>frag. \<lparr>sg_text = frag_name frag,
                                         sg_type = map_of typeMap (frag_typeCondition frag),
                                         sg_description =
                                           Some (''fragment '' @ frag_name frag @ '' on ''
                                                 @ frag_typeCondition frag),
                                         sg_isDeprecated = None,
                                         sg_deprecationReason = None\<rparr>) relevantFrags)))))"

definition getSuggestionsForDirectiveE ::
  "Utils \<Rightarrow> Point \<Rightarrow> State ContextToken \<Rightarrow> State option \<Rightarrow> GraphQLSchema
     \<Rightarrow> JSError + Suggestion list" where
  "getSuggestionsForDirectiveE U cursor token state schema =
     thenE (readProp state st_prevState)
       (\<lambda>prev.
          thenE (if prev \<noteq> None then readProp prev st_kind else Inr None)
            (\<lambda>guard.
               if truthy guard then
                 thenE (thenE (readProp state st_prevState) (\<lambda>p. readProp p st_kind))
                   (\<lambda>stateKind.
                      (let directives =
                             filter (canUseDirective (the stateKind)) (getDirectives schema)
                       in Inr (hintList U cursor token
                            (map (\<lambda>directive. \<lparr>sg_text = dir_name directive, sg_type = None,
                                                 sg_description = dir_description directive,
                                                 sg_isDeprecated = None,
                                                 sg_deprecationReason = None\<rparr>) directives))))
               else Inr []))"

subsection \<open>getAutocompleteSuggestions\<close>

text \<open>
  \<open>state.prevState != null && state.prevState.kind === 'TypeCondition'\<close>, and the test on
  the enclosing kind for variable types.
\<close>

definition prevKindIs :: "State option \<Rightarrow> string list \<Rightarrow> JSError + bool" where
  "prevKindIs state kinds =
     thenE (readProp state st_prevState)
       (\<lambda>prev. if prev \<noteq> None
               then thenE (readProp prev st_kind) (\<lambda>pk. Inr (pk \<in> Some ` set kinds))
               else Inr False)"

text \<open>The dispatch, with \<open>kind\<close> and \<open>step\<close> read from \<open>state\<close> before.\<close>

definition suggestionsForStateE ::
  "Utils \<Rightarrow> Parser \<Rightarrow> GraphQLSchema \<Rightarrow> string \<Rightarrow> Point \<Rightarrow> State ContextToken \<Rightarrow> State option
     \<Rightarrow> string option \<Rightarrow> nat \<Rightarrow> TypeInfo \<Rightarrow> (JSError + Suggestion list) option" where
  "suggestionsForStateE U P schema queryText cursor token state k stp typeInfo =
     (if k = Some ''Document'' then
        Some (Inr (hintList U cursor token
                [textOnly ''query'', textOnly ''mutation'', textOnly ''subscription'',
                 textOnly ''fragment'', textOnly ''{'']))
      else if k = Some ''SelectionSet'' \<or> k = Some ''Field'' \<or> k = Some ''AliasedField'' then
        Some (getSuggestionsForFieldNamesE U cursor token typeInfo schema)
      else if (k = Some ''Arguments'' \<or> (k = Some ''Argument'' \<and> stp = 0))
              \<and> argDefs typeInfo \<noteq> None then
        Some (thenE (readProp (argDefs typeInfo)
                       (map (\<lambda>a. \<lparr>sg_text = arg_name a, sg_type = Some (arg_type a),
                                   sg_description = arg_description a,
                                   sg_isDeprecated = None, sg_deprecationReason = None\<rparr>)))
                (\<lambda>list. Inr (hintList U cursor token list)))
      else if (k = Some ''ObjectValue'' \<or> (k = Some ''ObjectField'' \<and> stp = 0))
              \<and> objectFieldDefs typeInfo \<noteq> None then
        Some (thenE (readProp (objectFieldDefs typeInfo)
                       (\<lambda>defs. map (\<lambda>field. \<lparr>sg_text = fd_name field,
                                              sg_type = Some (fd_type field),
                                              sg_description = fd_description field,
                                              sg_isDeprecated = None,
                                              sg_deprecationReason = None\<rparr>)
                                 (objectValues defs)))
                (\<lambda>list. Inr (hintList U cursor token list)))
      else if k = Some ''EnumValue'' \<or> (k = Some ''ListValue'' \<and> stp = 1)
              \<or> (k = Some ''ObjectField'' \<and> stp = 2)
              \<or> (k = Some ''Argument'' \<and> stp = 2) then
        Some (getSuggestionsForInputValuesE U cursor token typeInfo)
      else
        thenO (if k = Some ''TypeCondition'' \<and> stp = 1 then Inr True
               else if k = Some ''NamedType'' then prevKindIs state [''TypeCondition'']
               else Inr False)
          (\<lambda>typeCondition.
             if typeCondition then
               Some (getSuggestionsForFragmentTypeConditionsE U cursor token typeInfo schema)
             else if k = Some ''FragmentSpread'' \<and> stp = 1 then
               getSuggestionsForFragmentSpreadE U P cursor token typeInfo schema queryText
             else
               thenO (if (k = Some ''VariableDefinition'' \<and> stp = 2)
                         \<or> (k = Some ''ListType'' \<and> stp = 1) then Inr True
                      else if k = Some ''NamedType''
                      then prevKindIs state [''VariableDefinition'', ''ListType'']
                      else Inr False)
                 (\<lambda>variableType.
                    if variableType then
                      Some (Inr (getSuggestionsForVariableDefinition U cursor token schema))
                    else if k = Some ''Directive'' then
                      Some (getSuggestionsForDirectiveE U cursor token state schema)
                    else Some (Inr []))))"

text \<open>
  The head of \<open>getAutocompleteSuggestions\<close>: the \<open>Invalid\<close> state is unwrapped, the guard
  \<open>if (!state) return []\<close> stands before the reads of \<open>state.kind\<close> and \<open>state.step\<close>.
\<close>

definition suggestionsAtTokenE ::
  "Utils \<Rightarrow> Parser \<Rightarrow> GraphQLSchema \<Rightarrow> string \<Rightarrow> Point \<Rightarrow> State ContextToken
     \<Rightarrow> (JSError + Suggestion list) option" where
  "suggestionsAtTokenE U P schema queryText cursor token =
     (let state = (if st_kind (tok_state token) = Some ''Invalid''
                   then st_prevState (tok_state token) else Some (tok_state token))
      in if state = None then Some (Inr [])
         else
           thenO (readProp state st_kind)
             (\<lambda>k. thenO (readProp state st_step)
                (\<lambda>stp. thenO (getTypeInfoE U schema (tok_state token))
                   (suggestionsForStateE U P schema queryText cursor token state k stp))))"

text \<open>
  The entry point. \<open>None\<close>: the call does not return; \<open>Some (Inl TypeError)\<close>: it raises;
  \<open>Some (Inr suggestions)\<close>: it returns the array \<open>suggestions\<close>.
\<close>

definition getAutocompleteSuggestions ::
  "Utils \<Rightarrow> Parser \<Rightarrow> GraphQLSchema \<Rightarrow> string \<Rightarrow> Point
     \<Rightarrow> (JSError + Suggestion list) option" where
  "getAutocompleteSuggestions U P schema queryText cursor =
     (case getTokenAtPosition P queryText cursor of
        None \<Rightarrow> None
      | Some token \<Rightarrow> suggestionsAtTokenE U P schema queryText cursor token)"

section \<open>The candidates as the specification states them\<close>

definition asFieldSuggestion :: "GraphQLField \<Rightarrow> Suggestion" where
  "asFieldSuggestion field =
     \<lparr>sg_text = fd_name field, sg_type = Some (fd_type field),
      sg_description = fd_description field, sg_isDeprecated = fd_isDeprecated field,
      sg_deprecationReason = fd_deprecationReason field\<rparr>"

text \<open>
  Spec 4.4, Fields: the parent type's own fields; \<open>__typename\<close> appended for an abstract
  parent type; \<open>__schema\<close> and \<open>__type\<close> appended for the query root type.
\<close>

definition fieldCandidates :: "GraphQLSchema \<Rightarrow> GraphQLType \<Rightarrow> GraphQLField list" where
  "fieldCandidates schema pt =
     (if hasGetFields pt then map snd (getFields schema pt) else [])
     @ (if isAbstractType pt then [TypeNameMetaFieldDef] else [])
     @ (if Some pt = getQueryType schema then [SchemaMetaFieldDef, TypeMetaFieldDef] else [])"

definition asEnumSuggestion :: "GraphQLType \<Rightarrow> GraphQLEnumValue \<Rightarrow> Suggestion" where
  "asEnumSuggestion enumType val =
     \<lparr>sg_text = ev_name val, sg_type = Some enumType, sg_description = ev_description val,
      sg_isDeprecated = ev_isDeprecated val,
      sg_deprecationReason = ev_deprecationReason val\<rparr>"

definition booleanCandidates :: "Suggestion list" where
  "booleanCandidates =
     [\<lparr>sg_text = ''true'', sg_type = Some GraphQLBoolean, sg_description = Some ''Not false.'',
       sg_isDeprecated = None, sg_deprecationReason = None\<rparr>,
      \<lparr>sg_text = ''false'', sg_type = Some GraphQLBoolean, sg_description = Some ''Not true.'',
       sg_isDeprecated = None, sg_deprecationReason = None\<rparr>]"

definition asDirectiveSuggestion :: "GraphQLDirective \<Rightarrow> Suggestion" where
  "asDirectiveSuggestion directive =
     \<lparr>sg_text = dir_name directive, sg_type = None,
      sg_description = dir_description directive,
      sg_isDeprecated = None, sg_deprecationReason = None\<rparr>"

section \<open>Unresolved context\<close>

text \<open>
  Spec 7: a position whose context did not resolve. The generator of the position needs
  the parent type, the argument definitions, the input-object fields, the input type or
  the enclosing state, and that one is unknown.
\<close>

definition contextUnresolved :: "State \<Rightarrow> TypeInfo \<Rightarrow> bool" where
  "contextUnresolved state typeInfo =
     (let k = st_kind state; stp = st_step state in
      ((k = Some ''SelectionSet'' \<or> k = Some ''Field'' \<or> k = Some ''AliasedField'')
         \<and> parentType typeInfo = None)
      \<or> ((k = Some ''Arguments'' \<or> (k = Some ''Argument'' \<and> stp = 0))
         \<and> argDefs typeInfo = None)
      \<or> ((k = Some ''ObjectValue'' \<or> (k = Some ''ObjectField'' \<and> stp = 0))
         \<and> objectFieldDefs typeInfo = None)
      \<or> ((k = Some ''EnumValue'' \<or> (k = Some ''ListValue'' \<and> stp = 1)
           \<or> (k = Some ''ObjectField'' \<and> stp = 2) \<or> (k = Some ''Argument'' \<and> stp = 2))
         \<and> inputType typeInfo = None)
      \<or> (k = Some ''Directive'' \<and> st_prevState state = None))"

text \<open>
  The type information with which the traversal reaches a state: the one resolved from
  the enclosing states.
\<close>

definition typeInfoBefore :: "Utils \<Rightarrow> GraphQLSchema \<Rightarrow> State \<Rightarrow> TypeInfo" where
  "typeInfoBefore U schema s =
     (case st_prevState s of None \<Rightarrow> noTypeInfo | Some p \<Rightarrow> getTypeInfo U schema p)"

text \<open>
  No enclosing state is an \<open>Argument\<close>: in the grammar an argument holds a value, and a
  value holds no argument, so the chain of rules that are open at one time holds one
  \<open>Argument\<close> at most.
\<close>

definition noArgumentAbove :: "State \<Rightarrow> bool" where
  "noArgumentAbove s =
     (case st_prevState s of
        None \<Rightarrow> True
      | Some p \<Rightarrow> list_all (\<lambda>a. st_kind a \<noteq> Some ''Argument'') (statesOf p))"

section \<open>Example inputs\<close>

text \<open>
  A small lexer: one character per token. A blank is skipped as white space (empty
  style, empty literal); \<open>F\<close> opens a fragment definition named \<open>F\<close> on type \<open>T\<close>; any
  other character is a name in the document state.
\<close>

definition charParser :: Parser where
  "charParser =
     \<lparr>startState = (\<lambda>h. (0, h(0 := StateObject (Some ''Document'') 0 None None None))),
      parserToken = (\<lambda>stream state h.
        (let c = cs_sourceText stream ! cs_pos stream;
             p = Suc (cs_pos stream) in
         if c = CHR '' '' then
           ([], stream\<lparr>cs_start := p, cs_pos := p\<rparr>, h)
         else if c = CHR ''F'' then
           (''keyword'', stream\<lparr>cs_start := cs_pos stream, cs_pos := p\<rparr>,
            h(state := StateObject (Some ''FragmentDefinition'') (Suc (ob_step (h state)))
                         (Some ''F'') (Some ''T'') (ob_prevState (h state))))
         else
           (''atom'', stream\<lparr>cs_start := cs_pos stream, cs_pos := p\<rparr>,
            h(state := StateObject (Some ''Document'') (Suc (ob_step (h state))) (Some [c]) None
                         (ob_prevState (h state))))))\<rparr>"

text \<open>
  A lexer that pushes a rule on \<open>f\<close> (the live object's copy becomes its \<open>prevState\<close>)
  and, on any other character, writes that character into the \<open>type\<close> of the enclosing
  state.
\<close>

definition pushParser :: Parser where
  "pushParser =
     \<lparr>startState = (\<lambda>h. (0, h(0 := StateObject (Some ''FragmentDefinition'') 0 None None None))),
      parserToken = (\<lambda>stream state h.
        (let c = cs_sourceText stream ! cs_pos stream;
             stream' = stream\<lparr>cs_start := cs_pos stream, cs_pos := Suc (cs_pos stream)\<rparr> in
         if c = CHR ''f'' then
           (''keyword'', stream',
            h(1 := h state, state := StateObject (Some ''TypeCondition'') 1 None None (Some 1)))
         else
           (''atom'', stream',
            (case ob_prevState (h state) of
               None \<Rightarrow> h
             | Some p \<Rightarrow>
                 h(p := StateObject (ob_kind (h p)) (ob_step (h p)) (ob_name (h p)) (Some [c])
                          (ob_prevState (h p)))))))\<rparr>"

text \<open>A store where the live object 0 has the enclosing state 1.\<close>

definition aliasStore :: store where
  "aliasStore =
     emptyStore(0 := StateObject (Some ''TypeCondition'') 1 None None (Some 1),
                1 := StateObject (Some ''FragmentDefinition'') 2 (Some ''F'') None None)"

text \<open>The snapshot that the callback takes of the live object 0 of that store.\<close>

definition aliasSnapshot :: StateObject where
  "aliasSnapshot =
     the (stateAtCursor (snd (atCursor \<lparr>row = 0, column = 5\<rparr> noCapture
            \<lparr>cs_sourceText = ''on'', cs_start = 0, cs_pos = 2\<rparr> (aliasStore 0) ''keyword'' 0)))"

text \<open>The same store after the lexer has named the type of the enclosing state.\<close>

definition aliasStoreLater :: store where
  "aliasStoreLater =
     aliasStore(1 := StateObject (Some ''FragmentDefinition'') 2 (Some ''F'') (Some ''T'') None)"

text \<open>The same store after the lexer has moved the live object on.\<close>

definition aliasStoreLive :: store where
  "aliasStoreLive = aliasStore(0 := StateObject (Some ''NamedType'') 0 (Some ''T'') None (Some 1))"

text \<open>Helpers that keep every candidate and look fields up in the type's own fields.\<close>

definition exampleUtils :: Utils where
  "exampleUtils =
     \<lparr>hintList = (\<lambda>cursor token list. list),
      getFieldDef = (\<lambda>schema t n. map_of (getFields schema t) n),
      getDefinitionState =
        (\<lambda>s. List.find (\<lambda>d. st_kind d = Some ''FragmentDefinition'') (statesOf s))\<rparr>"

text \<open>
  A schema with the query type \<open>Query { f(a: Boolean): Boolean }\<close>, an object type \<open>T\<close>
  and two directives.
\<close>

definition exampleArgument :: GraphQLArgument where
  "exampleArgument = \<lparr>arg_name = ''a'', arg_type = GraphQLBoolean, arg_description = None\<rparr>"

definition exampleField :: GraphQLField where
  "exampleField =
     \<lparr>fd_name = ''f'', fd_type = GraphQLBoolean, fd_description = None,
      fd_args = Some [exampleArgument], fd_isDeprecated = Some False,
      fd_deprecationReason = None\<rparr>"

definition skipDirective :: GraphQLDirective where
  "skipDirective =
     \<lparr>dir_name = ''skip'', dir_description = None,
      dir_locations = [''FIELD'', ''FRAGMENT_SPREAD'', ''INLINE_FRAGMENT''],
      dir_args = [\<lparr>arg_name = ''if'', arg_type = GraphQLNonNull GraphQLBoolean,
                   arg_description = None\<rparr>]\<rparr>"

text \<open>A directive declared for fragment definitions only.\<close>

definition definitionDirective :: GraphQLDirective where
  "definitionDirective =
     \<lparr>dir_name = ''onDefinition'', dir_description = None,
      dir_locations = [''FRAGMENT_DEFINITION''], dir_args = []\<rparr>"

definition exampleSchema :: GraphQLSchema where
  "exampleSchema =
     \<lparr>getQueryType = Some (GraphQLObjectType ''Query''),
      getMutationType = None,
      getSubscriptionType = None,
      getTypeMap = [(''Query'', GraphQLObjectType ''Query''), (''T'', GraphQLObjectType ''T''),
                    (''Boolean'', GraphQLBoolean)],
      getDirectives = [skipDirective, definitionDirective],
      getPossibleTypes = (\<lambda>t. []),
      doTypesOverlap = (\<lambda>a b. a = b),
      getFields = (\<lambda>t. if t = GraphQLObjectType ''Query'' then [(''f'', exampleField)] else []),
      getInterfaces = (\<lambda>t. []),
      typeDescription = (\<lambda>t. None)\<rparr>"

text \<open>
  The chain \<open>Query\<close>, \<open>SelectionSet\<close>, \<open>Field f\<close>, \<open>Arguments\<close>, \<open>Argument a\<close>,
  \<open>Argument zzz\<close> (outermost first): the innermost argument name \<open>zzz\<close> is not an
  argument of \<open>f\<close>.
\<close>

definition argumentAState :: State where
  "argumentAState =
     State (Some ''Argument'') 2 (Some ''a'') None
       (Some (State (Some ''Arguments'') 1 None None
         (Some (State (Some ''Field'') 1 (Some ''f'') None
           (Some (State (Some ''SelectionSet'') 1 None None
             (Some (State (Some ''Query'') 1 None None None))))))))"

definition staleArgumentState :: State where
  "staleArgumentState = State (Some ''Argument'') 2 (Some ''zzz'') None (Some argumentAState)"

definition staleArgumentToken :: "State ContextToken" where
  "staleArgumentToken =
     \<lparr>tok_start = 0, tok_end = 1, tok_string = '':'', tok_state = staleArgumentState,
      tok_style = ''punctuation''\<rparr>"

text \<open>A token whose state is \<open>Invalid\<close>, after a selection set of the query type.\<close>

definition invalidToken :: "State ContextToken" where
  "invalidToken =
     \<lparr>tok_start = 2, tok_end = 3, tok_string = ''!'',
      tok_state = State (Some ''Invalid'') 0 None None
        (Some (State (Some ''SelectionSet'') 1 None None
          (Some (State (Some ''Query'') 1 None None None)))),
      tok_style = ''invalidchar''\<rparr>"

text \<open>The type information at a selection set of the object type \<open>T\<close>.\<close>

definition inTypeT :: TypeInfo where
  "inTypeT = noTypeInfo\<lparr>ti_type := Some (GraphQLObjectType ''T''),
                          parentType := Some (GraphQLObjectType ''T'')\<rparr>"

definition spreadToken :: "State ContextToken" where
  "spreadToken =
     \<lparr>tok_start = 0, tok_end = 3, tok_string = ''...'',
      tok_state = State (Some ''FragmentSpread'') 1 None None
        (Some (State (Some ''SelectionSet'') 1 None None
          (Some (State (Some ''FragmentDefinition'') 4 (Some ''G'') (Some ''T'') None)))),
      tok_style = ''punctuation''\<rparr>"

text \<open>A directive position in a field, in a fragment definition, and with nothing around.\<close>

definition directiveInField :: State where
  "directiveInField =
     State (Some ''Directive'') 1 None None (Some (State (Some ''Field'') 2 (Some ''f'') None None))"

definition directiveInDefinition :: State where
  "directiveInDefinition =
     State (Some ''Directive'') 1 None None
       (Some (State (Some ''FragmentDefinition'') 4 (Some ''G'') (Some ''T'') None))"

definition directiveAlone :: State where
  "directiveAlone = State (Some ''Directive'') 1 None None None"

definition colorEnum :: GraphQLType where
  "colorEnum =
     GraphQLEnumType ''Color''
       [\<lparr>ev_name = ''RED'', ev_value = JSString ''RED'', ev_description = Some ''warm'',
         ev_isDeprecated = Some False, ev_deprecationReason = None\<rparr>,
        \<lparr>ev_name = ''BLUE'', ev_value = JSString ''BLUE'', ev_description = None,
         ev_isDeprecated = Some True, ev_deprecationReason = Some ''cold''\<rparr>]"

text \<open>A lexer that finds every character invalid and has no valid state to go back to.\<close>

definition invalidParser :: Parser where
  "invalidParser =
     \<lparr>startState = (\<lambda>h. (0, h(0 := StateObject (Some ''Invalid'') 0 None None None))),
      parserToken = (\<lambda>stream state h.
        (''invalidchar'',
         stream\<lparr>cs_start := cs_pos stream, cs_pos := Suc (cs_pos stream)\<rparr>, h))\<rparr>"

text \<open>
  The chains \<open>Query\<close>, \<open>SelectionSet\<close>, \<open>Field f\<close>, \<open>Arguments\<close>, \<open>Argument zzz\<close> and
  \<open>Query\<close>, \<open>SelectionSet\<close>, \<open>Field g\<close> (outermost first), and a selection set and an
  argument list in the field \<open>g\<close>: \<open>f\<close> has no argument \<open>zzz\<close>, the query type no field \<open>g\<close>.
\<close>

definition querySelection :: State where
  "querySelection =
     State (Some ''SelectionSet'') 1 None None
       (Some (State (Some ''Query'') 1 None None None))"

definition unknownArgumentState :: State where
  "unknownArgumentState =
     State (Some ''Argument'') 2 (Some ''zzz'') None
       (Some (State (Some ''Arguments'') 1 None None
         (Some (State (Some ''Field'') 1 (Some ''f'') None (Some querySelection)))))"

definition unknownFieldState :: State where
  "unknownFieldState = State (Some ''Field'') 1 (Some ''g'') None (Some querySelection)"

definition selectionInUnknownField :: State where
  "selectionInUnknownField = State (Some ''SelectionSet'') 1 None None (Some unknownFieldState)"

definition argumentsInUnknownField :: State where
  "argumentsInUnknownField = State (Some ''Arguments'') 1 None None (Some unknownFieldState)"

section \<open>Walking a chain in the store\<close>

lemma chainAddrs_None: "chainAddrs h None = Some []"
  by (subst chainAddrs.simps) simp

lemma chainAddrs_Some:
  "chainAddrs h (Some a) =
     Option.bind (chainAddrs h (ob_prevState (h a))) (\<lambda>rest. Some (a # rest))"
  by (subst chainAddrs.simps) simp

lemmas eval_defs = getTokenAtPosition_def runOnlineParser_def scanLine.simps
  chainAddrs_None chainAddrs_Some
  readState_def atCursor_def eol_def newCharacterStream_def emptyStore_def noCapture_def
  truthy_def orElse_def getCurrentPosition_def current_def getStartOfToken_def Let_def

lemma finiteChains_empty: "finiteChains emptyStore"
  by (simp add: finiteChains_def emptyStore_def)

lemma finiteChains_same:
  "(\<And>a. ob_prevState (h' a) = ob_prevState (h a)) \<Longrightarrow> finiteChains h \<Longrightarrow> finiteChains h'"
  by (simp add: finiteChains_def)

lemma finiteChains_cut:
  "finiteChains h \<Longrightarrow> ob_prevState ob = None \<Longrightarrow> finiteChains (h(a := ob))"
  unfolding finiteChains_def
  by (erule wf_subset) (auto split: if_splits)

lemma chainAddrs_total:
  assumes "finiteChains h"
  shows "\<exists>l. chainAddrs h p = Some l"
proof -
  have "\<exists>l. chainAddrs h (Some a) = Some l" for a
    using assms unfolding finiteChains_def
  proof (induction a rule: wf_induct_rule)
    case (less a)
    show ?case
    proof (cases "ob_prevState (h a)")
      case None
      then show ?thesis by (simp add: chainAddrs_Some chainAddrs_None)
    next
      case (Some q)
      then obtain l where "chainAddrs h (Some q) = Some l" using less by auto
      then show ?thesis using Some by (simp add: chainAddrs_Some[of h a])
    qed
  qed
  then show ?thesis by (cases p) (auto simp: chainAddrs_None)
qed

lemma readState_total: "finiteChains h \<Longrightarrow> \<exists>s. readState h ob = Some s"
  using chainAddrs_total[of h "ob_prevState ob"] by (auto simp: readState_def)

text \<open>A chain read in one store reads the same in any store that agrees on its objects.\<close>

lemma chainAddrs_frame:
  "chainAddrs h p = Some as \<Longrightarrow> \<forall>q\<in>set as. h' q = h q \<Longrightarrow> chainAddrs h' p = Some as"
proof (induction as arbitrary: p)
  case Nil
  then show ?case
    by (cases p) (auto simp: chainAddrs_None chainAddrs_Some split: Option.bind_splits)
next
  case (Cons a as)
  from Cons.prems(1) have p: "p = Some a"
    by (cases p) (auto simp: chainAddrs_None chainAddrs_Some split: Option.bind_splits)
  with Cons.prems(1) have r: "chainAddrs h (ob_prevState (h a)) = Some as"
    by (auto simp: chainAddrs_Some split: Option.bind_splits)
  from Cons.IH[OF r] Cons.prems(2) have "chainAddrs h' (ob_prevState (h a)) = Some as" by simp
  moreover have "h' a = h a" using Cons.prems(2) by simp
  ultimately show ?case using p by (simp add: chainAddrs_Some)
qed

section \<open>The scan returns\<close>

lemma scanLine_total:
  assumes adv: "lexer_advances P"
  shows "cs_pos stream \<le> length (cs_sourceText stream) \<Longrightarrow>
         \<exists>stream' h' style' acc'.
           scanLine P callback i stream state h style acc = Some (stream', h', style', acc') \<and>
           (lexer_keeps_chains P \<longrightarrow> finiteChains h \<longrightarrow> finiteChains h')"
proof (induction "length (cs_sourceText stream) - cs_pos stream"
        arbitrary: stream h style acc rule: less_induct)
  case less
  show ?case
  proof (cases "eol stream")
    case True
    then show ?thesis by (subst scanLine.simps) simp
  next
    case False
    then have lt: "cs_pos stream < length (cs_sourceText stream)"
      using less.prems by (simp add: eol_def)
    obtain style1 stream1 h1 where tk: "parserToken P stream state h = (style1, stream1, h1)"
      by (cases "parserToken P stream state h") auto
    obtain brk acc1 where cb: "callback acc stream1 (h1 state) style1 i = (brk, acc1)"
      by (cases "callback acc stream1 (h1 state) style1 i") auto
    from adv lt tk have p: "cs_sourceText stream1 = cs_sourceText stream"
       "cs_pos stream < cs_pos stream1" "cs_pos stream1 \<le> length (cs_sourceText stream1)"
      unfolding lexer_advances_def by (auto dest!: spec[of _ stream] spec[of _ state] spec[of _ h])
    have f1: "lexer_keeps_chains P \<longrightarrow> finiteChains h \<longrightarrow> finiteChains h1"
      using tk unfolding lexer_keeps_chains_def by (metis snd_conv)
    show ?thesis
    proof (cases brk)
      case True
      then show ?thesis using False tk cb f1 by (subst scanLine.simps) simp
    next
      case nb: False
      have "length (cs_sourceText stream1) - cs_pos stream1
              < length (cs_sourceText stream) - cs_pos stream"
        using p lt by simp
      from less.hyps[OF this p(3), of h1 style1 acc1] f1
      show ?thesis using nb False tk cb by (subst scanLine.simps) auto
    qed
  qed
qed

lemma scanLines_total:
  assumes adv: "lexer_advances P"
  shows "\<exists>stream' state' h' style' acc'.
           scanLines P callback i ls stream state h style acc
             = Some (stream', state', h', style', acc') \<and>
           (lexer_keeps_chains P \<longrightarrow> finiteChains h \<longrightarrow> finiteChains h')"
proof (induction ls arbitrary: i stream state h style acc)
  case Nil
  show ?case by simp
next
  case (Cons l ls)
  obtain stream1 h1 style1 acc1 where
    l: "scanLine P callback i (newCharacterStream l) state h style acc
          = Some (stream1, h1, style1, acc1)"
    and f1: "lexer_keeps_chains P \<longrightarrow> finiteChains h \<longrightarrow> finiteChains h1"
    using scanLine_total[OF adv, of "newCharacterStream l" callback i state h style acc]
    by (auto simp: newCharacterStream_def)
  obtain state2 h2 where
    st: "(if \<not> truthy (ob_kind (h1 state)) then startState P h1 else (state, h1)) = (state2, h2)"
    by (cases "if \<not> truthy (ob_kind (h1 state)) then startState P h1 else (state, h1)") auto
  have f2: "lexer_keeps_chains P \<longrightarrow> finiteChains h1 \<longrightarrow> finiteChains h2"
    using st unfolding lexer_keeps_chains_def by (metis snd_conv prod.inject)
  from Cons[of "i + 1" stream1 state2 h2 style1 acc1] f1 f2
  show ?case using l st by auto
qed

lemma runOnlineParser_total:
  assumes adv: "lexer_advances P"
  shows "\<exists>token h acc'. runOnlineParser P queryText callback acc = Some (token, h, acc') \<and>
           (lexer_keeps_chains P \<longrightarrow> finiteChains h)"
proof -
  obtain state h where s: "startState P emptyStore = (state, h)"
    by (cases "startState P emptyStore") auto
  have f: "lexer_keeps_chains P \<longrightarrow> finiteChains h"
    using s finiteChains_empty unfolding lexer_keeps_chains_def by (metis snd_conv)
  from scanLines_total[OF adv, of callback 0 "split (CHR 0x0A) queryText"
        "newCharacterStream []" state h "[]" acc] f
  show ?thesis using s by (auto simp: runOnlineParser_def)
qed

lemma getTokenAtPosition_total:
  assumes "lexer_advances P" "lexer_keeps_chains P"
  shows "\<exists>token. getTokenAtPosition P queryText cursor = Some token"
proof -
  obtain token h acc where
    r: "runOnlineParser P queryText (atCursor cursor) noCapture = Some (token, h, acc)"
    and f: "finiteChains h"
    using runOnlineParser_total[OF assms(1), of queryText "atCursor cursor" noCapture] assms(2)
    by blast
  from readState_total[OF f] obtain s where
    "readState h (case stateAtCursor acc of Some s \<Rightarrow> s | None \<Rightarrow> h (tok_state token)) = Some s"
    by blast
  then show ?thesis using r by (simp add: getTokenAtPosition_def)
qed

lemma getFragmentDefinitions_total:
  "lexer_advances P \<Longrightarrow> \<exists>frags. getFragmentDefinitions P queryText = Some frags"
  using runOnlineParser_total[of P queryText harvestFragment "[]"]
  by (auto simp: getFragmentDefinitions_def)

lemma suggestionsAtToken_total:
  assumes "lexer_advances P"
  shows "\<exists>xs. suggestionsAtToken U P schema queryText cursor token = Some xs"
proof -
  obtain frags where "getFragmentDefinitions P queryText = Some frags"
    using getFragmentDefinitions_total[OF assms] by blast
  then have "\<exists>xs. getSuggestionsForFragmentSpread U P cursor token ti schema queryText = Some xs"
    for ti
    by (simp add: getSuggestionsForFragmentSpread_def Let_def)
  then have "\<exists>xs. suggestionsForState U P schema queryText cursor token state ti = Some xs"
    for state ti
    by (simp add: suggestionsForState_def Let_def)
  then show ?thesis
    by (simp add: suggestionsAtToken_def split: option.split)
qed

text \<open>The example lexer meets both requirements.\<close>

lemma charParser_advances: "lexer_advances charParser"
  by (simp add: lexer_advances_def charParser_def Let_def)

lemma charParser_keeps_chains: "lexer_keeps_chains charParser"
  unfolding lexer_keeps_chains_def
proof (intro conjI allI impI)
  fix h assume "finiteChains h"
  then show "finiteChains (snd (startState charParser h))"
    by (simp add: charParser_def finiteChains_cut)
next
  fix stream state h assume "finiteChains h"
  then show "finiteChains (snd (snd (parserToken charParser stream state h)))"
    by (rule finiteChains_same[rotated]) (simp add: charParser_def Let_def)
qed

section \<open>Every read stands under its guard\<close>

lemmas raise_defs = readProp_def thenE_def thenO_def instanceOfEnum_def instanceOfList_def
  instanceOfInputObject_def isAbstractTypeN_def callGetValues_def callGetFields_def

lemma thenE_Inr: "thenE (Inr x) f = f x"
  by (simp add: thenE_def)

lemma readProp_Some: "readProp (Some x) p = Inr (p x)"
  by (simp add: readProp_def)

lemma guarded_read:
  "(if x \<noteq> None then thenE (readProp x p) (\<lambda>t. Inr (Some t)) else Inr None)
     = Inr (map_option p x)"
  by (cases x) (simp_all add: readProp_def thenE_def)

lemma guarded_read_option:
  "(if x \<noteq> None then readProp x p else Inr None) = Inr (Option.bind x p)"
  by (cases x) (simp_all add: readProp_def)

lemma enum_values_read:
  "(if instanceOfEnum t then thenE (callGetValues t) (\<lambda>vs. Inr (F vs)) else Inr None)
     = Inr (case t of Some (GraphQLEnumType n vs) \<Rightarrow> F vs | _ \<Rightarrow> None)"
proof (cases t)
  case None
  then show ?thesis by (simp add: instanceOfEnum_def)
next
  case (Some x)
  then show ?thesis
    by (cases x) (simp_all add: instanceOfEnum_def callGetValues_def thenE_def)
qed

lemma list_ofType_read:
  "(if instanceOfList t then readProp t ofType else Inr None)
     = Inr (case t of Some (GraphQLList x) \<Rightarrow> Some x | _ \<Rightarrow> None)"
proof (cases t)
  case None
  then show ?thesis by (simp add: instanceOfList_def)
next
  case (Some x)
  then show ?thesis
    by (cases x) (simp_all add: instanceOfList_def readProp_def)
qed

lemma input_fields_read:
  "(if instanceOfInputObject t then thenE (callGetFields schema t) (\<lambda>fs. Inr (Some fs))
    else Inr None)
     = Inr (case t of
              Some (GraphQLInputObjectType n) \<Rightarrow> Some (getFields schema (GraphQLInputObjectType n))
            | _ \<Rightarrow> None)"
proof (cases t)
  case None
  then show ?thesis by (simp add: instanceOfInputObject_def)
next
  case (Some x)
  then show ?thesis
    by (cases x) (simp_all add: instanceOfInputObject_def callGetFields_def thenE_def)
qed

lemmas read_idioms = thenE_Inr readProp_Some guarded_read guarded_read_option enum_values_read
  list_ofType_read input_fields_read

lemma kind_cases:
  fixes k :: "string option"
  obtains "k = Some ''Query''"
    | "k = Some ''ShortQuery''"
    | "k = Some ''Mutation''"
    | "k = Some ''Subscription''"
    | "k = Some ''InlineFragment''"
    | "k = Some ''FragmentDefinition''"
    | "k = Some ''Field''"
    | "k = Some ''AliasedField''"
    | "k = Some ''SelectionSet''"
    | "k = Some ''Directive''"
    | "k = Some ''Arguments''"
    | "k = Some ''Argument''"
    | "k = Some ''EnumValue''"
    | "k = Some ''ListValue''"
    | "k = Some ''ObjectValue''"
    | "k = Some ''ObjectField''"
    | "k = Some ''NamedType''"
    | "k \<noteq> Some ''Query''" "k \<noteq> Some ''ShortQuery''" "k \<noteq> Some ''Mutation''" "k \<noteq> Some ''Subscription''" "k \<noteq> Some ''InlineFragment''" "k \<noteq> Some ''FragmentDefinition''" "k \<noteq> Some ''Field''" "k \<noteq> Some ''AliasedField''" "k \<noteq> Some ''SelectionSet''" "k \<noteq> Some ''Directive''" "k \<noteq> Some ''Arguments''" "k \<noteq> Some ''Argument''" "k \<noteq> Some ''EnumValue''" "k \<noteq> Some ''ListValue''" "k \<noteq> Some ''ObjectValue''" "k \<noteq> Some ''ObjectField''" "k \<noteq> Some ''NamedType''"
  by blast

lemma typeInfoStepE_agrees:
  "typeInfoStepE U schema state ti = Inr (typeInfoStep U schema state ti)"
proof (cases "st_kind state" rule: kind_cases)
  case 13
  then show ?thesis
    by (simp add: typeInfoStepE_def typeInfoStep_def enum_values_read thenE_Inr Let_def)
next
  case 14
  then show ?thesis
    by (simp add: typeInfoStepE_def typeInfoStep_def list_ofType_read thenE_Inr Let_def)
next
  case 15
  then show ?thesis
    by (simp add: typeInfoStepE_def typeInfoStep_def input_fields_read thenE_Inr Let_def)
qed (auto simp: typeInfoStepE_def typeInfoStep_def readProp_def thenE_def Let_def
      split: option.splits)

lemma foldE_agrees:
  "(\<And>x a. f x a = Inr (g x a)) \<Longrightarrow> foldE f xs acc = Inr (fold g xs acc)"
  by (induction xs arbitrary: acc) (simp_all add: thenE_def)

lemma mapE_agrees: "(\<And>x. f x = Inr (g x)) \<Longrightarrow> mapE f xs = Inr (map g xs)"
  by (induction xs) (simp_all add: thenE_def)

lemma filterE_agrees: "(\<And>x. f x = Inr (g x)) \<Longrightarrow> filterE f xs = Inr (filter g xs)"
  by (induction xs) (simp_all add: thenE_def)

lemma getTypeInfoE_agrees: "getTypeInfoE U schema s = Inr (getTypeInfo U schema s)"
  by (simp add: getTypeInfoE_def getTypeInfo_def forEachStateE_def forEachState_def
      foldE_agrees[where g="typeInfoStep U schema"] typeInfoStepE_agrees)

lemma getSuggestionsForFieldNamesE_agrees:
  "getSuggestionsForFieldNamesE U cursor token typeInfo schema
     = Inr (getSuggestionsForFieldNames U cursor token typeInfo schema)"
  by (auto simp: getSuggestionsForFieldNamesE_def getSuggestionsForFieldNames_def raise_defs
      Let_def split: option.splits)

lemma getSuggestionsForInputValuesE_agrees:
  "getSuggestionsForInputValuesE U cursor token typeInfo
     = Inr (getSuggestionsForInputValues U cursor token typeInfo)"
proof -
  define named where "named = map_option getNamedType (inputType typeInfo)"
  show ?thesis
    unfolding getSuggestionsForInputValuesE_def getSuggestionsForInputValues_def Let_def
      named_def[symmetric]
    apply (cases named)
     apply (simp add: instanceOfEnum_def)
    subgoal for t
      by (cases t) (simp_all add: instanceOfEnum_def callGetValues_def thenE_def)
    done
qed

lemma getSuggestionsForFragmentTypeConditionsE_agrees:
  "getSuggestionsForFragmentTypeConditionsE U cursor token typeInfo schema
     = Inr (getSuggestionsForFragmentTypeConditions U cursor token typeInfo schema)"
  unfolding getSuggestionsForFragmentTypeConditionsE_def
    getSuggestionsForFragmentTypeConditions_def Let_def
  by (subst mapE_agrees) (simp_all add: raise_defs)

lemma relevantFragE_agrees:
  "relevantFragE schema defState typeInfo frag = Inr (relevantFrag schema defState typeInfo frag)"
  by (auto simp: relevantFragE_def relevantFrag_def raise_defs split: option.splits)

lemma getSuggestionsForFragmentSpreadE_agrees:
  "getSuggestionsForFragmentSpreadE U P cursor token typeInfo schema queryText
     = map_option Inr (getSuggestionsForFragmentSpread U P cursor token typeInfo schema queryText)"
  by (simp add: getSuggestionsForFragmentSpreadE_def getSuggestionsForFragmentSpread_def
      Let_def thenE_def
      filterE_agrees[where g="relevantFrag schema (getDefinitionState U (tok_state token)) typeInfo"]
      relevantFragE_agrees split: option.splits)

lemma getSuggestionsForDirectiveE_agrees:
  "getSuggestionsForDirectiveE U cursor token (Some state) schema
     = Inr (getSuggestionsForDirective U cursor token state schema)"
  by (auto simp: getSuggestionsForDirectiveE_def getSuggestionsForDirective_def raise_defs
      Let_def truthy_def split: option.splits)

lemma prevKindIs_Some:
  "prevKindIs (Some state) kinds =
     Inr (case st_prevState state of None \<Rightarrow> False | Some prev \<Rightarrow> st_kind prev \<in> Some ` set kinds)"
  by (auto simp: prevKindIs_def raise_defs split: option.splits)

lemma suggestionsForStateE_agrees:
  "suggestionsForStateE U P schema queryText cursor token (Some state) (st_kind state)
       (st_step state) typeInfo
     = map_option Inr (suggestionsForState U P schema queryText cursor token state typeInfo)"
  unfolding suggestionsForStateE_def suggestionsForState_def Let_def
  by (auto simp: getSuggestionsForFieldNamesE_agrees getSuggestionsForInputValuesE_agrees
      getSuggestionsForFragmentTypeConditionsE_agrees getSuggestionsForFragmentSpreadE_agrees
      getSuggestionsForDirectiveE_agrees prevKindIs_Some raise_defs split: option.splits)

lemma suggestionsAtTokenE_agrees:
  "suggestionsAtTokenE U P schema queryText cursor token
     = map_option Inr (suggestionsAtToken U P schema queryText cursor token)"
  unfolding suggestionsAtTokenE_def suggestionsAtToken_def Let_def
  by (auto simp: getTypeInfoE_agrees suggestionsForStateE_agrees raise_defs
      split: option.splits)

section \<open>The entry point returns and does not raise\<close>

text \<open>
  The entry point with its raises written out gives, on every input, the list that the
  entry point read without them gives: no read of the source raises.
\<close>

lemma getAutocompleteSuggestions_agrees:
  "getAutocompleteSuggestions U P schema queryText cursor =
     (case getTokenAtPosition P queryText cursor of
        None \<Rightarrow> None
      | Some token \<Rightarrow> map_option Inr (suggestionsAtToken U P schema queryText cursor token))"
  by (simp add: getAutocompleteSuggestions_def suggestionsAtTokenE_agrees split: option.split)

text \<open>
  The value of a read that stands under no guard: on an absent object it is the
  \<open>TypeError\<close>. The entry point reads \<open>state.kind\<close> and \<open>state.step\<close> only after
  \<open>if (!state) return []\<close>.
\<close>

lemma unguarded_read_raises: "readProp None p = Inl TypeError"
  by (simp add: readProp_def)

text \<open>A context that did not resolve gives the empty list in the dispatch.\<close>

lemma unresolved_context_gives_nothing:
  "contextUnresolved state typeInfo \<Longrightarrow>
   suggestionsForState U P schema queryText cursor token state typeInfo = Some []"
  unfolding contextUnresolved_def Let_def
  by (elim disjE conjE)
     (simp_all add: suggestionsForState_def Let_def getSuggestionsForFieldNames_def
        getSuggestionsForInputValues_def getSuggestionsForDirective_def)

text \<open>
  C1. For every schema, document text and cursor position, \<open>getAutocompleteSuggestions\<close>
  returns, and what it returns is a list of suggestions, not a raised \<open>TypeError\<close>:
  this for every lexer that consumes input on each call and keeps the \<open>prevState\<close>
  chains finite. The list is the one of the dispatch on the located token. It is empty
  when the token's state is \<open>Invalid\<close> with no state before it, and when the context of
  the state dispatched on did not resolve: no parent type where fields or fragment type
  conditions are asked for, no argument or object field definitions, no input type
  where a value is asked for, no state before a directive.
\<close>

theorem getAutocompleteSuggestions_never_raises:
  assumes "lexer_advances P" and "lexer_keeps_chains P"
  shows "\<exists>token suggestions.
           getTokenAtPosition P queryText cursor = Some token \<and>
           getAutocompleteSuggestions U P schema queryText cursor = Some (Inr suggestions) \<and>
           suggestionsAtToken U P schema queryText cursor token = Some suggestions \<and>
           (st_kind (tok_state token) = Some ''Invalid'' \<longrightarrow>
            st_prevState (tok_state token) = None \<longrightarrow> suggestions = []) \<and>
           (\<forall>state.
              (if st_kind (tok_state token) = Some ''Invalid''
               then st_prevState (tok_state token) else Some (tok_state token)) = Some state \<longrightarrow>
              contextUnresolved state (getTypeInfo U schema (tok_state token)) \<longrightarrow>
              suggestions = [])"
proof -
  obtain token where t: "getTokenAtPosition P queryText cursor = Some token"
    using getTokenAtPosition_total[OF assms, of queryText cursor] by blast
  obtain suggestions where
    s: "suggestionsAtToken U P schema queryText cursor token = Some suggestions"
    using suggestionsAtToken_total[OF assms(1), of U schema queryText cursor token] by blast
  have r: "getAutocompleteSuggestions U P schema queryText cursor = Some (Inr suggestions)"
    using t s by (simp add: getAutocompleteSuggestions_agrees)
  have e: "st_kind (tok_state token) = Some ''Invalid'' \<longrightarrow>
           st_prevState (tok_state token) = None \<longrightarrow> suggestions = []"
    using s by (auto simp: suggestionsAtToken_def)
  have d: "suggestions = []"
    if "(if st_kind (tok_state token) = Some ''Invalid''
         then st_prevState (tok_state token) else Some (tok_state token)) = Some state"
      and "contextUnresolved state (getTypeInfo U schema (tok_state token))" for state
    using s that(1) unresolved_context_gives_nothing[OF that(2), of U P schema queryText cursor token]
    by (simp add: suggestionsAtToken_def)
  have c: "\<forall>state.
              (if st_kind (tok_state token) = Some ''Invalid''
               then st_prevState (tok_state token) else Some (tok_state token)) = Some state \<longrightarrow>
              contextUnresolved state (getTypeInfo U schema (tok_state token)) \<longrightarrow>
              suggestions = []"
    by (intro allI impI) (rule d)
  show ?thesis
    by (rule exI[of _ token], rule exI[of _ suggestions]) (intro conjI t r s e c)
qed

text \<open>A lexer whose only state is \<open>Invalid\<close>, with no state before it.\<close>

lemma invalidParser_advances: "lexer_advances invalidParser"
  by (simp add: lexer_advances_def invalidParser_def)

lemma invalidParser_keeps_chains: "lexer_keeps_chains invalidParser"
  unfolding lexer_keeps_chains_def
  by (simp add: invalidParser_def finiteChains_cut)

text \<open>
  On a document that is a syntax error from its first character the call returns the
  empty list: the guard \<open>if (!state) return []\<close> is taken, and the reads of \<open>state.kind\<close>
  after it are not reached. At the document level, with the example lexer, the five
  keywords are returned.
\<close>

theorem getAutocompleteSuggestions_never_raises_witness:
  "lexer_advances invalidParser \<and> lexer_keeps_chains invalidParser \<and>
   (\<exists>token suggestions.
      getTokenAtPosition invalidParser ''!'' \<lparr>row = 0, column = 1\<rparr> = Some token \<and>
      getAutocompleteSuggestions exampleUtils invalidParser exampleSchema ''!''
        \<lparr>row = 0, column = 1\<rparr> = Some (Inr suggestions) \<and>
      st_kind (tok_state token) = Some ''Invalid'' \<and>
      st_prevState (tok_state token) = None \<and> suggestions = []) \<and>
   map_option (map_sum id (map sg_text))
     (getAutocompleteSuggestions exampleUtils charParser exampleSchema ''ab''
        \<lparr>row = 0, column = 1\<rparr>)
     = Some (Inr [''query'', ''mutation'', ''subscription'', ''fragment'', ''{''])"
proof -
  have k: "map_option (map_sum id (map sg_text))
     (getAutocompleteSuggestions exampleUtils charParser exampleSchema ''ab''
        \<lparr>row = 0, column = 1\<rparr>)
     = Some (Inr [''query'', ''mutation'', ''subscription'', ''fragment'', ''{''])"
    by (simp add: getAutocompleteSuggestions_agrees eval_defs charParser_def
        suggestionsAtToken_def suggestionsForState_def exampleUtils_def textOnly_def)
  have tk: "map_option (\<lambda>t. (st_kind (tok_state t), st_prevState (tok_state t)))
              (getTokenAtPosition invalidParser ''!'' \<lparr>row = 0, column = 1\<rparr>)
            = Some (Some ''Invalid'', None)"
    by (simp add: eval_defs invalidParser_def)
  from getAutocompleteSuggestions_never_raises[OF invalidParser_advances
      invalidParser_keeps_chains, of "''!''" "\<lparr>row = 0, column = 1\<rparr>" exampleUtils exampleSchema]
  have "\<exists>token suggestions.
      getTokenAtPosition invalidParser ''!'' \<lparr>row = 0, column = 1\<rparr> = Some token \<and>
      getAutocompleteSuggestions exampleUtils invalidParser exampleSchema ''!''
        \<lparr>row = 0, column = 1\<rparr> = Some (Inr suggestions) \<and>
      st_kind (tok_state token) = Some ''Invalid'' \<and>
      st_prevState (tok_state token) = None \<and> suggestions = []"
  proof (elim exE conjE)
    fix token suggestions
    assume t: "getTokenAtPosition invalidParser ''!'' \<lparr>row = 0, column = 1\<rparr> = Some token"
      and r: "getAutocompleteSuggestions exampleUtils invalidParser exampleSchema ''!''
                \<lparr>row = 0, column = 1\<rparr> = Some (Inr suggestions)"
      and e: "st_kind (tok_state token) = Some ''Invalid'' \<longrightarrow>
              st_prevState (tok_state token) = None \<longrightarrow> suggestions = []"
    from tk t have i: "st_kind (tok_state token) = Some ''Invalid''"
      "st_prevState (tok_state token) = None" by simp_all
    with e have n: "suggestions = []" by simp
    show ?thesis
      by (rule exI[of _ token], rule exI[of _ suggestions]) (intro conjI t r i n)
  qed
  with k invalidParser_advances invalidParser_keeps_chains show ?thesis by simp
qed

section \<open>An Invalid state is unwrapped\<close>

lemma getTypeInfo_Invalid:
  assumes "st_kind s = Some ''Invalid''" and "st_prevState s = Some p"
  shows "getTypeInfo U schema s = getTypeInfo U schema p"
proof -
  have i: "typeInfoStep U schema s ti = ti" for ti
    using assms(1) by (simp add: typeInfoStep_def)
  from assms(2) have "statesOf s = s # statesOf p" by (cases s) simp
  then show ?thesis
    by (simp add: getTypeInfo_def forEachState_def i)
qed

text \<open>
  C2. When the state of the token has kind \<open>Invalid\<close>, the result is the empty list if
  the state has no \<open>prevState\<close>, and otherwise the dispatch on that previous state with
  the type information resolved from that previous state. The code hands \<open>token.state\<close>
  to \<open>getTypeInfo\<close>; the \<open>Invalid\<close> state is visited last and matches no case, so the
  type information is the one of the unwrapped state.
\<close>

theorem invalid_state_is_unwrapped:
  assumes "st_kind (tok_state token) = Some ''Invalid''"
  shows "suggestionsAtToken U P schema queryText cursor token =
           (case st_prevState (tok_state token) of
              None \<Rightarrow> Some []
            | Some state \<Rightarrow>
                suggestionsForState U P schema queryText cursor token state
                  (getTypeInfo U schema state))"
  using assms getTypeInfo_Invalid[OF assms]
  by (simp add: suggestionsAtToken_def split: option.split)

lemmas typeinfo_defs = getTypeInfo_def forEachState_def typeInfoStep_def noTypeInfo_def
  truthy_def getType_def getDirective_def Let_def

text \<open>After a syntax error in a selection set of the query type, its fields are suggested.\<close>

theorem invalid_state_is_unwrapped_witness:
  "st_kind (tok_state invalidToken) = Some ''Invalid'' \<and>
   suggestionsAtToken exampleUtils charParser exampleSchema ''{ !'' \<lparr>row = 0, column = 3\<rparr>
     invalidToken =
   (case st_prevState (tok_state invalidToken) of
      None \<Rightarrow> Some []
    | Some state \<Rightarrow>
        suggestionsForState exampleUtils charParser exampleSchema ''{ !''
          \<lparr>row = 0, column = 3\<rparr> invalidToken state
          (getTypeInfo exampleUtils exampleSchema state)) \<and>
   map_option (map sg_text)
     (suggestionsAtToken exampleUtils charParser exampleSchema ''{ !'' \<lparr>row = 0, column = 3\<rparr>
        invalidToken) = Some [''f'', ''__schema'', ''__type'']"
proof -
  have k: "st_kind (tok_state invalidToken) = Some ''Invalid''"
    by (simp add: invalidToken_def)
  note u = invalid_state_is_unwrapped[OF k, of exampleUtils charParser exampleSchema "''{ !''"
      "\<lparr>row = 0, column = 3\<rparr>"]
  have "map_option (map sg_text)
     (suggestionsAtToken exampleUtils charParser exampleSchema ''{ !'' \<lparr>row = 0, column = 3\<rparr>
        invalidToken) = Some [''f'', ''__schema'', ''__type'']"
    unfolding u
    by (simp add: invalidToken_def suggestionsForState_def typeinfo_defs
        getSuggestionsForFieldNames_def objectValues_def exampleUtils_def exampleSchema_def
        exampleField_def SchemaMetaFieldDef_def TypeMetaFieldDef_def)
  with k u show ?thesis by simp
qed

section \<open>A token past the cursor\<close>

text \<open>
  On a line that is not the cursor's row the callback neither captures nor breaks: the
  line is scanned to its end.
\<close>

lemma scanLine_other_row:
  assumes adv: "lexer_advances P" and ne: "i \<noteq> row cursor"
  shows "cs_pos stream \<le> length (cs_sourceText stream) \<Longrightarrow>
         \<exists>stream' h' style'.
           scanLine P (atCursor cursor) i stream state h style acc
             = Some (stream', h', style', acc) \<and>
           eol stream' \<and> cs_sourceText stream' = cs_sourceText stream"
proof (induction "length (cs_sourceText stream) - cs_pos stream"
        arbitrary: stream h style rule: less_induct)
  case less
  show ?case
  proof (cases "eol stream")
    case True
    then show ?thesis by (subst scanLine.simps) simp
  next
    case False
    then have lt: "cs_pos stream < length (cs_sourceText stream)"
      using less.prems by (simp add: eol_def)
    obtain style1 stream1 h1 where tk: "parserToken P stream state h = (style1, stream1, h1)"
      by (cases "parserToken P stream state h") auto
    have cb: "atCursor cursor acc stream1 (h1 state) style1 i = (False, acc)"
      using ne by (simp add: atCursor_def)
    from adv lt tk have p: "cs_sourceText stream1 = cs_sourceText stream"
       "cs_pos stream < cs_pos stream1" "cs_pos stream1 \<le> length (cs_sourceText stream1)"
      unfolding lexer_advances_def by (auto dest!: spec[of _ stream] spec[of _ state] spec[of _ h])
    have "length (cs_sourceText stream1) - cs_pos stream1
            < length (cs_sourceText stream) - cs_pos stream"
      using p lt by simp
    from less.hyps[OF this p(3), of h1 style1] p(1)
    show ?thesis using False tk cb by (subst scanLine.simps) auto
  qed
qed

lemma scanLines_last_line:
  assumes adv: "lexer_advances P"
  shows "ls \<noteq> [] \<Longrightarrow> row cursor + 1 < i + length ls \<Longrightarrow>
         scanLines P (atCursor cursor) i ls stream state h style acc
           = Some (stream', state', h', style', acc') \<Longrightarrow>
         eol stream' \<and> cs_sourceText stream' = last ls"
proof (induction ls arbitrary: i stream state h style acc)
  case Nil
  then show ?case by simp
next
  case (Cons l ls)
  show ?case
  proof (cases "ls = []")
    case True
    then have ne: "i \<noteq> row cursor" using Cons.prems(2) by simp
    from scanLine_other_row[OF adv ne, of "newCharacterStream l" state h style acc]
    obtain stream1 h1 style1 where
      l: "scanLine P (atCursor cursor) i (newCharacterStream l) state h style acc
            = Some (stream1, h1, style1, acc)"
      and e: "eol stream1" "cs_sourceText stream1 = l"
      by (auto simp: newCharacterStream_def)
    from Cons.prems(3) True l e show ?thesis
      by (auto split: prod.splits if_splits)
  next
    case False
    from scanLine_total[OF adv, of "newCharacterStream l" "atCursor cursor" i state h style acc]
    obtain stream1 h1 style1 acc1 where
      l: "scanLine P (atCursor cursor) i (newCharacterStream l) state h style acc
            = Some (stream1, h1, style1, acc1)"
      by (auto simp: newCharacterStream_def)
    obtain state2 h2 where
      st: "(if \<not> truthy (ob_kind (h1 state)) then startState P h1 else (state, h1)) = (state2, h2)"
      by (cases "if \<not> truthy (ob_kind (h1 state)) then startState P h1 else (state, h1)") auto
    from Cons.prems(3) l st have
      "scanLines P (atCursor cursor) (i + 1) ls stream1 state2 h2 style1 acc1
         = Some (stream', state', h', style', acc')"
      by simp
    from Cons.IH[OF False _ this] Cons.prems(2) False show ?thesis by simp
  qed
qed

lemma split_not_Nil: "split sep s \<noteq> []"
  by (induction s) (auto split: list.splits)

text \<open>
  Whatever happened on the cursor's row, when lines follow it the scan ends at the end
  of the last line: the returned offsets and literal are those of the last token of the
  document.
\<close>

lemma runOnlineParser_scans_every_line:
  assumes adv: "lexer_advances P"
    and below: "row cursor + 1 < length (split (CHR 0x0A) queryText)"
    and run: "runOnlineParser P queryText (atCursor cursor) acc = Some (token, h, acc')"
  shows "tok_end token = length (last (split (CHR 0x0A) queryText)) \<and>
         tok_string token = drop (tok_start token) (last (split (CHR 0x0A) queryText))"
proof -
  obtain state h0 where s: "startState P emptyStore = (state, h0)"
    by (cases "startState P emptyStore") auto
  from run s obtain stream state' style where
    sl: "scanLines P (atCursor cursor) 0 (split (CHR 0x0A) queryText) (newCharacterStream [])
           state h0 [] acc = Some (stream, state', h, style, acc')"
    and tk: "token = \<lparr>tok_start = getStartOfToken stream, tok_end = getCurrentPosition stream,
                      tok_string = current stream, tok_state = state', tok_style = style\<rparr>"
    by (auto simp: runOnlineParser_def split: option.splits)
  from scanLines_last_line[OF adv split_not_Nil _ sl] below
  have "eol stream" "cs_sourceText stream = last (split (CHR 0x0A) queryText)" by simp_all
  then show ?thesis using tk
    by (simp add: eol_def getCurrentPosition_def getStartOfToken_def current_def)
qed

text \<open>
  The token past the cursor leaves the captured values as they are, and captured values
  that are truthy are the ones returned.
\<close>

lemma atCursor_break_keeps_capture:
  "index = row cursor \<Longrightarrow> column cursor < getCurrentPosition stream \<Longrightarrow>
   atCursor cursor acc stream state style index = (True, acc)"
  by (simp add: atCursor_def)

lemma captured_values_are_kept:
  assumes "runOnlineParser P queryText (atCursor cursor) noCapture = Some (token, h, acc)"
    and "getTokenAtPosition P queryText cursor = Some t"
    and "stringAtCursor acc = Some s" and "s \<noteq> []"
    and "styleAtCursor acc = Some y" and "y \<noteq> []"
    and "stateAtCursor acc = Some ob"
  shows "tok_string t = s \<and> tok_style t = y \<and> readState h ob = Some (tok_state t)"
  using assms
  by (auto simp: getTokenAtPosition_def orElse_def truthy_def split: option.splits)

text \<open>
  C3. The specification: when a token on the cursor's row ends past the cursor's column,
  the whole scan stops and no further token of any line is processed; the source comment
  says "Stop the parsing when the stream arrives at the current cursor position". The
  code: \<open>BREAK\<close> leaves the loop over the current line only, and the following lines are
  scanned. With
  the document of the two lines \<open>ab\<close> and \<open>cde\<close> and the cursor at row 0, column 0, the
  first token overshoots, nothing is captured, and the token returned is the last token
  \<open>e\<close> of the second line, at columns 2 to 3.
\<close>

theorem scan_goes_on_after_break:
  "map_option (\<lambda>t. (tok_start t, tok_end t, tok_string t))
     (getTokenAtPosition charParser (''ab'' @ [CHR 0x0A] @ ''cde'') \<lparr>row = 0, column = 0\<rparr>)
   = Some (2, 3, ''e'')"
  by (simp add: eval_defs charParser_def)

section \<open>Names that do not resolve\<close>

text \<open>The type information of a state is one step on from that of the state before it.\<close>

lemma getTypeInfo_step:
  "getTypeInfo U schema s = typeInfoStep U schema s (typeInfoBefore U schema s)"
  by (cases s; cases "st_prevState s")
     (auto simp: getTypeInfo_def forEachState_def typeInfoBefore_def)

text \<open>
  A field that the parent type does not know leaves no field definition and no type; the
  parent type is the one before.
\<close>

lemma typeInfoStep_field_unknown:
  assumes "st_kind state = Some ''Field'' \<or> st_kind state = Some ''AliasedField''"
    and "truthy (st_name state)"
    and "\<forall>pt. parentType ti = Some pt \<longrightarrow> getFieldDef U schema pt (the (st_name state)) = None"
  shows "fieldDef (typeInfoStep U schema state ti) = None \<and>
         ti_type (typeInfoStep U schema state ti) = None \<and>
         parentType (typeInfoStep U schema state ti) = parentType ti"
  using assms by (auto simp: typeInfoStep_def Let_def split: option.splits)

lemma argLoop_unmatched: "\<forall>a\<in>set defs. Some (arg_name a) \<noteq> n \<Longrightarrow> argLoop defs n cur = cur"
  by (induction defs) auto

text \<open>
  An argument name that matches no definition leaves \<open>argDef\<close> as the earlier steps set
  it, and the input type follows it.
\<close>

lemma typeInfoStep_unmatched_argument:
  assumes "st_kind state = Some ''Argument''"
    and "\<forall>defs. argDefs ti = Some defs \<longrightarrow> (\<forall>a\<in>set defs. Some (arg_name a) \<noteq> st_name state)"
  shows "argDef (typeInfoStep U schema state ti) = argDef ti \<and>
         inputType (typeInfoStep U schema state ti) = map_option arg_type (argDef ti)"
  using assms by (auto simp: typeInfoStep_def Let_def argLoop_unmatched split: option.splits)

text \<open>
  \<open>argDef\<close> is local to one call of \<open>getTypeInfo\<close>, starts unset, and only the
  \<open>Argument\<close> case assigns it: before the first \<open>Argument\<close> state of a chain it is unset.
\<close>

lemma typeInfoStep_keeps_argDef:
  assumes "st_kind s \<noteq> Some ''Argument''"
  shows "argDef (typeInfoStep U schema s ti) = argDef ti"
  using assms
  by (cases "st_kind s" rule: kind_cases)
     (auto simp: typeInfoStep_def Let_def split: option.splits)

lemma fold_keeps_argDef:
  "\<forall>x\<in>set xs. st_kind x \<noteq> Some ''Argument'' \<Longrightarrow>
   argDef (fold (typeInfoStep U schema) xs ti) = argDef ti"
  by (induction xs arbitrary: ti) (simp_all add: typeInfoStep_keeps_argDef)

lemma argDef_before_argument:
  "noArgumentAbove s \<Longrightarrow> argDef (typeInfoBefore U schema s) = None"
  by (auto simp: noArgumentAbove_def typeInfoBefore_def getTypeInfo_def forEachState_def
      noTypeInfo_def fold_keeps_argDef list_all_iff split: option.splits)

text \<open>
  C4. A name that does not resolve gives unknown markers, and the generator of the
  position gives the empty list. For an \<open>Argument\<close> state whose name matches no entry of
  the argument definitions resolved before it, \<open>argDef\<close> and \<open>inputType\<close> are unknown
  and no input value is suggested. This is stated for the chains of the grammar, where
  an \<open>Argument\<close> state is popped before the next one is pushed, so that no other
  \<open>Argument\<close> state stands above it. For a \<open>Field\<close> or \<open>AliasedField\<close> state whose name
  the parent type does not know, \<open>fieldDef\<close> and \<open>type\<close> are unknown; in a selection set
  opened on that field the parent type is unknown and no field name is suggested, and
  for an argument list opened on it the argument definitions are unknown.
\<close>

theorem unresolved_names_give_unknown:
  "(st_kind s = Some ''Argument'' \<longrightarrow> noArgumentAbove s \<longrightarrow>
      (\<forall>defs. argDefs (typeInfoBefore U schema s) = Some defs \<longrightarrow>
              (\<forall>a\<in>set defs. Some (arg_name a) \<noteq> st_name s)) \<longrightarrow>
      argDef (getTypeInfo U schema s) = None \<and>
      inputType (getTypeInfo U schema s) = None \<and>
      getSuggestionsForInputValues U cursor token (getTypeInfo U schema s) = [])
   \<and>
   ((st_kind s = Some ''Field'' \<or> st_kind s = Some ''AliasedField'') \<longrightarrow>
      truthy (st_name s) \<longrightarrow>
      (\<forall>pt. parentType (typeInfoBefore U schema s) = Some pt \<longrightarrow>
            getFieldDef U schema pt (the (st_name s)) = None) \<longrightarrow>
      fieldDef (getTypeInfo U schema s) = None \<and>
      ti_type (getTypeInfo U schema s) = None \<and>
      (\<forall>sel. st_kind sel = Some ''SelectionSet'' \<longrightarrow> st_prevState sel = Some s \<longrightarrow>
             parentType (getTypeInfo U schema sel) = None \<and>
             getSuggestionsForFieldNames U cursor token (getTypeInfo U schema sel) schema = []) \<and>
      (\<forall>args. st_kind args = Some ''Arguments'' \<longrightarrow> st_prevState args = Some s \<longrightarrow>
              argDefs (getTypeInfo U schema args) = None))"
proof (intro conjI impI)
  assume a: "st_kind s = Some ''Argument''" "noArgumentAbove s"
    "\<forall>defs. argDefs (typeInfoBefore U schema s) = Some defs \<longrightarrow>
            (\<forall>a\<in>set defs. Some (arg_name a) \<noteq> st_name s)"
  from typeInfoStep_unmatched_argument[OF a(1) a(3), of U schema] argDef_before_argument[OF a(2)]
  have r: "argDef (getTypeInfo U schema s) = None" "inputType (getTypeInfo U schema s) = None"
    by (simp_all add: getTypeInfo_step[of U schema s])
  show "argDef (getTypeInfo U schema s) = None" by (rule r)
  show "inputType (getTypeInfo U schema s) = None" by (rule r)
  show "getSuggestionsForInputValues U cursor token (getTypeInfo U schema s) = []"
    by (simp add: getSuggestionsForInputValues_def r(2))
next
  assume f: "st_kind s = Some ''Field'' \<or> st_kind s = Some ''AliasedField''"
    "truthy (st_name s)"
    "\<forall>pt. parentType (typeInfoBefore U schema s) = Some pt \<longrightarrow>
          getFieldDef U schema pt (the (st_name s)) = None"
  from typeInfoStep_field_unknown[OF f]
  have r: "fieldDef (getTypeInfo U schema s) = None" "ti_type (getTypeInfo U schema s) = None"
    "parentType (getTypeInfo U schema s) = parentType (typeInfoBefore U schema s)"
    by (simp_all add: getTypeInfo_step[of U schema s])
  show "fieldDef (getTypeInfo U schema s) = None" by (rule r)
  show "ti_type (getTypeInfo U schema s) = None" by (rule r)
  show "\<forall>sel. st_kind sel = Some ''SelectionSet'' \<longrightarrow> st_prevState sel = Some s \<longrightarrow>
          parentType (getTypeInfo U schema sel) = None \<and>
          getSuggestionsForFieldNames U cursor token (getTypeInfo U schema sel) schema = []"
  proof (intro allI impI)
    fix sel assume "st_kind sel = Some ''SelectionSet''" "st_prevState sel = Some s"
    then have "parentType (getTypeInfo U schema sel) = None"
      by (simp add: getTypeInfo_step[of U schema sel] typeInfoBefore_def typeInfoStep_def r(2))
    then show "parentType (getTypeInfo U schema sel) = None \<and>
          getSuggestionsForFieldNames U cursor token (getTypeInfo U schema sel) schema = []"
      by (simp add: getSuggestionsForFieldNames_def)
  qed
  show "\<forall>args. st_kind args = Some ''Arguments'' \<longrightarrow> st_prevState args = Some s \<longrightarrow>
          argDefs (getTypeInfo U schema args) = None"
  proof (intro allI impI)
    fix args assume "st_kind args = Some ''Arguments''" "st_prevState args = Some s"
    then show "argDefs (getTypeInfo U schema args) = None"
      using f r
      by (auto simp: getTypeInfo_step[of U schema args] typeInfoBefore_def typeInfoStep_def
          Let_def split: option.splits)
  qed
qed

text \<open>
  With \<open>f(a: Boolean)\<close> on the query type: the argument \<open>zzz\<close> of \<open>f\<close> matches nothing,
  and the field \<open>g\<close> is unknown on the query type.
\<close>

theorem unresolved_names_give_unknown_witness:
  "st_kind unknownArgumentState = Some ''Argument'' \<and>
   noArgumentAbove unknownArgumentState \<and>
   argDefs (typeInfoBefore exampleUtils exampleSchema unknownArgumentState)
     = Some [exampleArgument] \<and>
   Some (arg_name exampleArgument) \<noteq> st_name unknownArgumentState \<and>
   argDef (getTypeInfo exampleUtils exampleSchema unknownArgumentState) = None \<and>
   inputType (getTypeInfo exampleUtils exampleSchema unknownArgumentState) = None \<and>
   getSuggestionsForInputValues exampleUtils \<lparr>row = 0, column = 1\<rparr> invalidToken
     (getTypeInfo exampleUtils exampleSchema unknownArgumentState) = [] \<and>
   st_kind unknownFieldState = Some ''Field'' \<and>
   truthy (st_name unknownFieldState) \<and>
   parentType (typeInfoBefore exampleUtils exampleSchema unknownFieldState)
     = Some (GraphQLObjectType ''Query'') \<and>
   getFieldDef exampleUtils exampleSchema (GraphQLObjectType ''Query'')
     (the (st_name unknownFieldState)) = None \<and>
   fieldDef (getTypeInfo exampleUtils exampleSchema unknownFieldState) = None \<and>
   ti_type (getTypeInfo exampleUtils exampleSchema unknownFieldState) = None \<and>
   parentType (getTypeInfo exampleUtils exampleSchema selectionInUnknownField) = None \<and>
   getSuggestionsForFieldNames exampleUtils \<lparr>row = 0, column = 1\<rparr> invalidToken
     (getTypeInfo exampleUtils exampleSchema selectionInUnknownField) exampleSchema = [] \<and>
   argDefs (getTypeInfo exampleUtils exampleSchema argumentsInUnknownField) = None"
proof -
  have a1: "st_kind unknownArgumentState = Some ''Argument''"
    by (simp add: unknownArgumentState_def)
  have a2: "noArgumentAbove unknownArgumentState"
    by (simp add: noArgumentAbove_def unknownArgumentState_def querySelection_def)
  have a3: "argDefs (typeInfoBefore exampleUtils exampleSchema unknownArgumentState)
              = Some [exampleArgument]"
    by (simp add: typeInfoBefore_def unknownArgumentState_def querySelection_def typeinfo_defs
        exampleUtils_def exampleSchema_def exampleField_def)
  have a4: "Some (arg_name exampleArgument) \<noteq> st_name unknownArgumentState"
    by (simp add: exampleArgument_def unknownArgumentState_def)
  have a5: "\<forall>defs. argDefs (typeInfoBefore exampleUtils exampleSchema unknownArgumentState)
              = Some defs \<longrightarrow>
            (\<forall>a\<in>set defs. Some (arg_name a) \<noteq> st_name unknownArgumentState)"
    using a4 by (simp add: a3)
  have f1: "st_kind unknownFieldState = Some ''Field''"
    by (simp add: unknownFieldState_def)
  have f1': "st_kind unknownFieldState = Some ''Field''
             \<or> st_kind unknownFieldState = Some ''AliasedField''"
    by (simp add: f1)
  have f2: "truthy (st_name unknownFieldState)"
    by (simp add: unknownFieldState_def truthy_def)
  have f3: "parentType (typeInfoBefore exampleUtils exampleSchema unknownFieldState)
              = Some (GraphQLObjectType ''Query'')"
    by (simp add: typeInfoBefore_def unknownFieldState_def querySelection_def typeinfo_defs
        exampleSchema_def)
  have f4: "getFieldDef exampleUtils exampleSchema (GraphQLObjectType ''Query'')
              (the (st_name unknownFieldState)) = None"
    by (simp add: exampleUtils_def exampleSchema_def unknownFieldState_def)
  have f5: "\<forall>pt. parentType (typeInfoBefore exampleUtils exampleSchema unknownFieldState) = Some pt
              \<longrightarrow> getFieldDef exampleUtils exampleSchema pt (the (st_name unknownFieldState)) = None"
    using f4 by (simp add: f3)
  have s1: "st_kind selectionInUnknownField = Some ''SelectionSet''"
    "st_prevState selectionInUnknownField = Some unknownFieldState"
    by (simp_all add: selectionInUnknownField_def)
  have s2: "st_kind argumentsInUnknownField = Some ''Arguments''"
    "st_prevState argumentsInUnknownField = Some unknownFieldState"
    by (simp_all add: argumentsInUnknownField_def)
  note A = unresolved_names_give_unknown[of unknownArgumentState exampleUtils exampleSchema
      "\<lparr>row = 0, column = 1\<rparr>" invalidToken, THEN conjunct1, THEN mp, OF a1, THEN mp, OF a2, THEN mp, OF a5]
  note F = unresolved_names_give_unknown[of unknownFieldState exampleUtils exampleSchema
      "\<lparr>row = 0, column = 1\<rparr>" invalidToken, THEN conjunct2, THEN mp, OF f1', THEN mp, OF f2, THEN mp, OF f5]
  from F have F1: "fieldDef (getTypeInfo exampleUtils exampleSchema unknownFieldState) = None"
    and F2: "ti_type (getTypeInfo exampleUtils exampleSchema unknownFieldState) = None"
    and F3: "\<forall>sel. st_kind sel = Some ''SelectionSet'' \<longrightarrow> st_prevState sel = Some unknownFieldState \<longrightarrow>
             parentType (getTypeInfo exampleUtils exampleSchema sel) = None \<and>
             getSuggestionsForFieldNames exampleUtils \<lparr>row = 0, column = 1\<rparr> invalidToken
               (getTypeInfo exampleUtils exampleSchema sel) exampleSchema = []"
    and F4: "\<forall>args. st_kind args = Some ''Arguments'' \<longrightarrow> st_prevState args = Some unknownFieldState \<longrightarrow>
              argDefs (getTypeInfo exampleUtils exampleSchema args) = None"
    by blast+
  from F3 s1 have S: "parentType (getTypeInfo exampleUtils exampleSchema selectionInUnknownField) = None"
    "getSuggestionsForFieldNames exampleUtils \<lparr>row = 0, column = 1\<rparr> invalidToken
       (getTypeInfo exampleUtils exampleSchema selectionInUnknownField) exampleSchema = []"
    by blast+
  from F4 s2 have G: "argDefs (getTypeInfo exampleUtils exampleSchema argumentsInUnknownField) = None"
    by blast
  from A a1 a2 a3 a4 f1 f2 f3 f4 F1 F2 S G show ?thesis by simp
qed

text \<open>
  The hypothesis on the chain is used: the \<open>Argument\<close> case assigns \<open>argDef\<close> on a match
  only and has no assignment of \<open>null\<close>, so on a chain built by hand with an \<open>Argument\<close>
  state above another the definition that the upper one resolved is still there at the
  lower one.
\<close>

lemma getTypeInfo_argumentA:
  "getTypeInfo exampleUtils exampleSchema argumentAState =
     \<lparr>ti_type = Some GraphQLBoolean, parentType = Some (GraphQLObjectType ''Query''),
      inputType = Some GraphQLBoolean, directiveDef = None, enumValue = None,
      fieldDef = Some exampleField, argDef = Some exampleArgument,
      argDefs = Some [exampleArgument], objectFieldDefs = None\<rparr>"
  by (simp add: typeinfo_defs argumentAState_def exampleUtils_def exampleSchema_def
      exampleField_def exampleArgument_def)

lemma second_argument_keeps_argDef:
  "argLoop [exampleArgument] (Some ''zzz'') None = None \<and>
   argDef (getTypeInfo exampleUtils exampleSchema staleArgumentState) = Some exampleArgument \<and>
   inputType (getTypeInfo exampleUtils exampleSchema staleArgumentState) = Some GraphQLBoolean \<and>
   map_option (map sg_text)
     (suggestionsAtToken exampleUtils charParser exampleSchema [] \<lparr>row = 0, column = 0\<rparr>
        staleArgumentToken) = Some [''true'', ''false'']"
proof -
  have step: "getTypeInfo exampleUtils exampleSchema staleArgumentState =
      typeInfoStep exampleUtils exampleSchema staleArgumentState
        (getTypeInfo exampleUtils exampleSchema argumentAState)"
    by (simp add: getTypeInfo_def forEachState_def staleArgumentState_def)
  have ti: "getTypeInfo exampleUtils exampleSchema staleArgumentState =
     \<lparr>ti_type = Some GraphQLBoolean, parentType = Some (GraphQLObjectType ''Query''),
      inputType = Some GraphQLBoolean, directiveDef = None, enumValue = None,
      fieldDef = Some exampleField, argDef = Some exampleArgument,
      argDefs = Some [exampleArgument], objectFieldDefs = None\<rparr>"
    unfolding step getTypeInfo_argumentA
    by (simp add: typeInfoStep_def staleArgumentState_def exampleArgument_def)
  have s: "map_option (map sg_text)
     (suggestionsAtToken exampleUtils charParser exampleSchema [] \<lparr>row = 0, column = 0\<rparr>
        staleArgumentToken) = Some [''true'', ''false'']"
    by (simp add: suggestionsAtToken_def staleArgumentToken_def ti)
       (simp add: staleArgumentState_def suggestionsForState_def
          getSuggestionsForInputValues_def GraphQLBoolean_def exampleUtils_def Let_def)
  show ?thesis using s by (simp add: ti exampleArgument_def)
qed

section \<open>The candidates of the generators\<close>

text \<open>
  C5. At a field-name position the candidates handed to \<open>hintList\<close> are the parent type's
  own fields, then \<open>__typename\<close> when the parent type is abstract, then \<open>__schema\<close> and
  \<open>__type\<close> when the parent type is the query root type; with no parent type the result
  is the empty list.
\<close>

theorem fieldNames_candidates:
  "getSuggestionsForFieldNames U cursor token typeInfo schema =
     (case parentType typeInfo of
        None \<Rightarrow> []
      | Some pt \<Rightarrow> hintList U cursor token (map asFieldSuggestion (fieldCandidates schema pt)))"
  by (simp add: getSuggestionsForFieldNames_def fieldCandidates_def objectValues_def Let_def
      asFieldSuggestion_def[abs_def] split: option.split)

text \<open>
  The query type, a union type, and no parent type: the own fields with \<open>__schema\<close> and
  \<open>__type\<close>; \<open>__typename\<close> alone; nothing.
\<close>

theorem fieldNames_candidates_witness:
  "map sg_text
     (getSuggestionsForFieldNames exampleUtils \<lparr>row = 0, column = 1\<rparr> invalidToken
        (noTypeInfo\<lparr>parentType := Some (GraphQLObjectType ''Query'')\<rparr>) exampleSchema)
     = [''f'', ''__schema'', ''__type''] \<and>
   map sg_text
     (getSuggestionsForFieldNames exampleUtils \<lparr>row = 0, column = 1\<rparr> invalidToken
        (noTypeInfo\<lparr>parentType := Some (GraphQLUnionType ''U'')\<rparr>) exampleSchema)
     = [''__typename''] \<and>
   getSuggestionsForFieldNames exampleUtils \<lparr>row = 0, column = 1\<rparr> invalidToken noTypeInfo
     exampleSchema = []"
  unfolding fieldNames_candidates
  by (simp add: noTypeInfo_def fieldCandidates_def exampleSchema_def exampleUtils_def
      asFieldSuggestion_def exampleField_def TypeNameMetaFieldDef_def SchemaMetaFieldDef_def
      TypeMetaFieldDef_def)

lemma canUseDirective_eq: "canUseDirective k d = directiveAllowed k d"
  by (simp add: canUseDirective_def directiveAllowed_def locationOfKind_def Let_def)

text \<open>
  C6. At a directive-name position the candidates handed to \<open>hintList\<close> are the schema's
  directives whose locations contain the location of the enclosing state's kind, under
  the mapping of the specification; a kind outside the mapping admits no directive, and
  without an enclosing state (or with an enclosing state without kind) the result is the
  empty list.
\<close>

theorem directive_candidates:
  "getSuggestionsForDirective U cursor token state schema =
     (case st_prevState state of
        None \<Rightarrow> []
      | Some prev \<Rightarrow>
          (case st_kind prev of
             None \<Rightarrow> []
           | Some k \<Rightarrow>
               if k = [] then []
               else hintList U cursor token
                      (map asDirectiveSuggestion
                         (filter (directiveAllowed k) (getDirectives schema)))))"
  by (simp add: getSuggestionsForDirective_def truthy_def Let_def asDirectiveSuggestion_def[abs_def]
      canUseDirective_eq[abs_def] split: option.split)

text \<open>
  In a field only the directive declared for fields is suggested, in a fragment
  definition only the one declared for fragment definitions, and none without an
  enclosing state.
\<close>

theorem directive_candidates_witness:
  "map sg_text
     (getSuggestionsForDirective exampleUtils \<lparr>row = 0, column = 1\<rparr> invalidToken
        directiveInField exampleSchema) = [''skip''] \<and>
   map sg_text
     (getSuggestionsForDirective exampleUtils \<lparr>row = 0, column = 1\<rparr> invalidToken
        directiveInDefinition exampleSchema) = [''onDefinition''] \<and>
   getSuggestionsForDirective exampleUtils \<lparr>row = 0, column = 1\<rparr> invalidToken
     directiveAlone exampleSchema = []"
  unfolding directive_candidates
  by (simp add: directiveInField_def directiveInDefinition_def directiveAlone_def
      exampleSchema_def exampleUtils_def directiveAllowed_def locationOfKind_def
      asDirectiveSuggestion_def skipDirective_def definitionDirective_def)

text \<open>
  C7. At a fragment-spread position every candidate handed to \<open>hintList\<close> comes from a
  harvested fragment whose type condition names a type of the schema, whose name is not
  the name of the enclosing fragment definition that \<open>getDefinitionState\<close> finds, whose
  type and the parent type are both composite and overlap by the schema's rule; its
  description is \<open>fragment <name> on <type>\<close>.
\<close>

theorem fragmentSpread_candidates:
  assumes "getFragmentDefinitions P queryText = Some fragments"
  shows "\<exists>raw. getSuggestionsForFragmentSpread U P cursor token typeInfo schema queryText
                 = Some (hintList U cursor token raw) \<and>
           (\<forall>c\<in>set raw. \<exists>frag\<in>set fragments. \<exists>fragType pt.
              sg_text c = frag_name frag \<and>
              sg_description c =
                Some (''fragment '' @ frag_name frag @ '' on '' @ frag_typeCondition frag) \<and>
              getType schema (frag_typeCondition frag) = Some fragType \<and>
              (\<forall>d. getDefinitionState U (tok_state token) = Some d \<longrightarrow>
                   st_kind d = Some ''FragmentDefinition'' \<longrightarrow>
                   st_name d \<noteq> Some (frag_name frag)) \<and>
              parentType typeInfo = Some pt \<and> isCompositeType pt \<and>
              isCompositeType fragType \<and> doTypesOverlap schema pt fragType)"
  using assms
  by (fastforce simp: getSuggestionsForFragmentSpread_def relevantFrag_def getType_def Let_def
      split: option.splits)

lemma getFragmentDefinitions_F:
  "getFragmentDefinitions charParser ''F''
     = Some [\<lparr>frag_name = ''F'', frag_typeCondition = ''T''\<rparr>]"
  by (simp add: getFragmentDefinitions_def eval_defs harvestFragment_def charParser_def)

text \<open>Inside fragment \<open>G\<close> on \<open>T\<close>, the fragment \<open>F\<close> on \<open>T\<close> of the document is suggested.\<close>

theorem fragmentSpread_candidates_witness:
  "getFragmentDefinitions charParser ''F''
     = Some [\<lparr>frag_name = ''F'', frag_typeCondition = ''T''\<rparr>] \<and>
   (\<exists>raw. getSuggestionsForFragmentSpread exampleUtils charParser \<lparr>row = 0, column = 3\<rparr>
             spreadToken inTypeT exampleSchema ''F''
           = Some (hintList exampleUtils \<lparr>row = 0, column = 3\<rparr> spreadToken raw) \<and>
      (\<forall>c\<in>set raw. \<exists>frag\<in>set [\<lparr>frag_name = ''F'', frag_typeCondition = ''T''\<rparr>].
         \<exists>fragType pt.
           sg_text c = frag_name frag \<and>
           sg_description c =
             Some (''fragment '' @ frag_name frag @ '' on '' @ frag_typeCondition frag) \<and>
           getType exampleSchema (frag_typeCondition frag) = Some fragType \<and>
           (\<forall>d. getDefinitionState exampleUtils (tok_state spreadToken) = Some d \<longrightarrow>
                st_kind d = Some ''FragmentDefinition'' \<longrightarrow>
                st_name d \<noteq> Some (frag_name frag)) \<and>
           parentType inTypeT = Some pt \<and> isCompositeType pt \<and>
           isCompositeType fragType \<and> doTypesOverlap exampleSchema pt fragType)) \<and>
   map_option (map sg_description)
     (getSuggestionsForFragmentSpread exampleUtils charParser \<lparr>row = 0, column = 3\<rparr>
        spreadToken inTypeT exampleSchema ''F'') = Some [Some ''fragment F on T'']"
proof -
  note f = getFragmentDefinitions_F
  have e: "map_option (map sg_description)
     (getSuggestionsForFragmentSpread exampleUtils charParser \<lparr>row = 0, column = 3\<rparr>
        spreadToken inTypeT exampleSchema ''F'') = Some [Some ''fragment F on T'']"
    by (simp add: getSuggestionsForFragmentSpread_def f relevantFrag_def exampleUtils_def
        exampleSchema_def spreadToken_def inTypeT_def)
  from fragmentSpread_candidates[OF f, of exampleUtils "\<lparr>row = 0, column = 3\<rparr>" spreadToken
      inTypeT exampleSchema] f e
  show ?thesis by blast
qed

text \<open>
  C8. At an input-value position the candidates handed to \<open>hintList\<close> are the members of
  the named input type when it is an enum type, each with its name, description and
  deprecation; the two literals \<open>true\<close> and \<open>false\<close>, in this order and with their fixed
  descriptions, when it is the boolean type; otherwise the result is the empty list.
\<close>

theorem inputValues_candidates:
  "getSuggestionsForInputValues U cursor token typeInfo =
     (case map_option getNamedType (inputType typeInfo) of
        None \<Rightarrow> []
      | Some t \<Rightarrow>
          (case t of
             GraphQLEnumType n vs \<Rightarrow> hintList U cursor token (map (asEnumSuggestion t) vs)
           | _ \<Rightarrow> if t = GraphQLBoolean then hintList U cursor token booleanCandidates else []))"
  by (simp add: getSuggestionsForInputValues_def asEnumSuggestion_def[abs_def]
      booleanCandidates_def GraphQLBoolean_def Let_def split: option.split GraphQLType.split)

text \<open>A non-null boolean, a list of an enum, a string, and no input type.\<close>

theorem inputValues_candidates_witness:
  "getSuggestionsForInputValues exampleUtils \<lparr>row = 0, column = 1\<rparr> invalidToken
     (noTypeInfo\<lparr>inputType := Some (GraphQLNonNull GraphQLBoolean)\<rparr>) = booleanCandidates \<and>
   map sg_text
     (getSuggestionsForInputValues exampleUtils \<lparr>row = 0, column = 1\<rparr> invalidToken
        (noTypeInfo\<lparr>inputType := Some (GraphQLList colorEnum)\<rparr>)) = [''RED'', ''BLUE''] \<and>
   getSuggestionsForInputValues exampleUtils \<lparr>row = 0, column = 1\<rparr> invalidToken
     (noTypeInfo\<lparr>inputType := Some GraphQLString\<rparr>) = [] \<and>
   getSuggestionsForInputValues exampleUtils \<lparr>row = 0, column = 1\<rparr> invalidToken noTypeInfo = []"
  unfolding inputValues_candidates
  by (simp add: noTypeInfo_def exampleUtils_def GraphQLBoolean_def GraphQLString_def
      colorEnum_def asEnumSuggestion_def)

section \<open>The snapshot of the state at the cursor\<close>

text \<open>
  C9, as the specification states it: the snapshot is a deep copy, so a later mutation
  of a state on its \<open>prevState\<close> chain leaves it unchanged. The code copies with the
  spread \<open>{...state}\<close>. The snapshot of the live object 0
  of the example store refers to object 1; once the lexer has written the type of
  object 1, the snapshot reads differently.
\<close>

theorem snapshot_deep_copy_counterexample:
  "readState aliasStoreLater aliasSnapshot \<noteq> readState aliasStore aliasSnapshot"
  by (simp add: aliasSnapshot_def atCursor_def getCurrentPosition_def aliasStore_def
      aliasStoreLater_def readState_def chainAddrs_None chainAddrs_Some emptyStore_def)

text \<open>
  The same through \<open>getTokenAtPosition\<close>: the cursor is after \<open>f\<close>; the state returned
  shows the type that the lexer wrote into the enclosing state when it read the next
  token \<open>T\<close>.
\<close>

lemma pushParser_alias:
  "map_option (\<lambda>t. map_option st_type (st_prevState (tok_state t)))
     (getTokenAtPosition pushParser ''fT'' \<lparr>row = 0, column = 1\<rparr>) = Some (Some (Some ''T''))"
  "map_option (\<lambda>t. map_option st_type (st_prevState (tok_state t)))
     (getTokenAtPosition pushParser ''f'' \<lparr>row = 0, column = 1\<rparr>) = Some (Some None)"
  by (simp_all add: eval_defs pushParser_def)

text \<open>
  C9, amended: the snapshot is a shallow copy. When the callback captures, the snapshot
  holds the own properties of the live object at that moment, whatever becomes of the
  live object later; the states on its \<open>prevState\<close> chain are shared with the lexer, and
  the snapshot reads the same in every later store that left those states as they were.
\<close>

theorem snapshot_is_shallow_copy:
  assumes "index = row cursor" and "getCurrentPosition stream \<le> column cursor"
    and "chainAddrs h (ob_prevState (h a)) = Some as"
    and "\<forall>p\<in>set as. h' p = h p"
  shows "stateAtCursor (snd (atCursor cursor acc stream (h a) style index)) = Some (h a) \<and>
         readState h' (h a) = readState h (h a)"
proof -
  have m: "map h' as = map h as" using assms(4) by simp
  show ?thesis
    using assms(1,2,3) chainAddrs_frame[OF assms(3,4)]
    by (simp add: atCursor_def readState_def m)
qed

text \<open>The live object 0 moves on to another rule; the snapshot taken before is as it was.\<close>

theorem snapshot_is_shallow_copy_witness:
  "0 = row \<lparr>row = 0, column = 5\<rparr> \<and>
   getCurrentPosition \<lparr>cs_sourceText = ''on'', cs_start = 0, cs_pos = 2\<rparr>
     \<le> column \<lparr>row = 0, column = 5\<rparr> \<and>
   chainAddrs aliasStore (ob_prevState (aliasStore 0)) = Some [1] \<and>
   aliasStoreLive 1 = aliasStore 1 \<and>
   aliasStoreLive 0 \<noteq> aliasStore 0 \<and>
   stateAtCursor (snd (atCursor \<lparr>row = 0, column = 5\<rparr> noCapture
      \<lparr>cs_sourceText = ''on'', cs_start = 0, cs_pos = 2\<rparr> (aliasStore 0) ''keyword'' 0))
     = Some (aliasStore 0) \<and>
   readState aliasStoreLive (aliasStore 0) = readState aliasStore (aliasStore 0)"
proof -
  have 1: "(0::nat) = row \<lparr>row = 0, column = 5\<rparr>" by simp
  have 2: "getCurrentPosition \<lparr>cs_sourceText = ''on'', cs_start = 0, cs_pos = 2\<rparr>
             \<le> column \<lparr>row = 0, column = 5\<rparr>"
    by (simp add: getCurrentPosition_def)
  have 3: "chainAddrs aliasStore (ob_prevState (aliasStore 0)) = Some [1]"
    by (simp add: aliasStore_def chainAddrs_None chainAddrs_Some emptyStore_def)
  have 4: "\<forall>p\<in>set [1]. aliasStoreLive p = aliasStore p"
    by (simp add: aliasStoreLive_def)
  have 5: "aliasStoreLive 0 \<noteq> aliasStore 0"
    by (simp add: aliasStoreLive_def aliasStore_def)
  from snapshot_is_shallow_copy[OF 1 2 3 4, of noCapture "''keyword''"] 1 2 3 4 5
  show ?thesis by simp
qed

section \<open>The fallback to the token at the end of the scan\<close>

text \<open>
  C10. The fallback from the values captured at the cursor's row to those of the token
  at the end of the scan goes by truthiness, not by whether a capture occurred. When
  nothing was captured, and also when the captured string is the empty string, the
  string of the returned token is that of the final token; when the captured string is
  not empty, the string of the returned token is the captured one. Likewise for the
  style.
\<close>

theorem fallback_by_truthiness:
  assumes "runOnlineParser P queryText (atCursor cursor) noCapture = Some (token, h, acc)"
    and "getTokenAtPosition P queryText cursor = Some t"
  shows "(stringAtCursor acc = None \<longrightarrow> tok_string t = tok_string token) \<and>
         (stringAtCursor acc = Some [] \<longrightarrow> tok_string t = tok_string token) \<and>
         (\<forall>s. stringAtCursor acc = Some s \<longrightarrow> s \<noteq> [] \<longrightarrow> tok_string t = s) \<and>
         (styleAtCursor acc = None \<longrightarrow> tok_style t = tok_style token) \<and>
         (styleAtCursor acc = Some [] \<longrightarrow> tok_style t = tok_style token) \<and>
         (\<forall>s. styleAtCursor acc = Some s \<longrightarrow> s \<noteq> [] \<longrightarrow> tok_style t = s)"
  using assms
  by (auto simp: getTokenAtPosition_def orElse_def truthy_def split: option.splits)

text \<open>
  Three scans with the example lexer. The cursor after a blank: the empty literal and
  the empty style are captured, and the returned token has the literal and the style of
  the final token. The cursor after \<open>F\<close> in \<open>Fb\<close>: \<open>F\<close> and its style are captured and
  returned, though the scan ends on \<open>b\<close>. The cursor at column 0: nothing is captured,
  and the values of the final token are returned.
\<close>

theorem fallback_by_truthiness_witness:
  "(\<exists>token h acc t.
     runOnlineParser charParser '' a'' (atCursor \<lparr>row = 0, column = 1\<rparr>) noCapture
       = Some (token, h, acc) \<and>
     getTokenAtPosition charParser '' a'' \<lparr>row = 0, column = 1\<rparr> = Some t \<and>
     stringAtCursor acc = Some [] \<and> styleAtCursor acc = Some [] \<and>
     tok_string token = ''a'' \<and> tok_style token = ''atom'' \<and>
     tok_string t = ''a'' \<and> tok_style t = ''atom'') \<and>
   (\<exists>token h acc t.
     runOnlineParser charParser ''Fb'' (atCursor \<lparr>row = 0, column = 1\<rparr>) noCapture
       = Some (token, h, acc) \<and>
     getTokenAtPosition charParser ''Fb'' \<lparr>row = 0, column = 1\<rparr> = Some t \<and>
     stringAtCursor acc = Some ''F'' \<and> styleAtCursor acc = Some ''keyword'' \<and>
     tok_string token = ''b'' \<and> tok_style token = ''atom'' \<and>
     tok_string t = ''F'' \<and> tok_style t = ''keyword'') \<and>
   (\<exists>token h acc t.
     runOnlineParser charParser ''Fb'' (atCursor \<lparr>row = 0, column = 0\<rparr>) noCapture
       = Some (token, h, acc) \<and>
     getTokenAtPosition charParser ''Fb'' \<lparr>row = 0, column = 0\<rparr> = Some t \<and>
     stringAtCursor acc = None \<and> styleAtCursor acc = None \<and>
     tok_string token = ''F'' \<and> tok_style token = ''keyword'' \<and>
     tok_string t = ''F'' \<and> tok_style t = ''keyword'')"
proof (intro conjI)
  obtain token h acc where
    run: "runOnlineParser charParser '' a'' (atCursor \<lparr>row = 0, column = 1\<rparr>) noCapture
            = Some (token, h, acc)"
    and cap: "stringAtCursor acc = Some []" "styleAtCursor acc = Some []"
    and fin: "tok_string token = ''a''" "tok_style token = ''atom''"
    by (simp add: eval_defs charParser_def)
  obtain t where t: "getTokenAtPosition charParser '' a'' \<lparr>row = 0, column = 1\<rparr> = Some t"
    by (simp add: eval_defs charParser_def)
  from fallback_by_truthiness[OF run t] cap fin
  have "tok_string t = ''a''" "tok_style t = ''atom''" by simp_all
  with run t cap fin show "\<exists>token h acc t.
     runOnlineParser charParser '' a'' (atCursor \<lparr>row = 0, column = 1\<rparr>) noCapture
       = Some (token, h, acc) \<and>
     getTokenAtPosition charParser '' a'' \<lparr>row = 0, column = 1\<rparr> = Some t \<and>
     stringAtCursor acc = Some [] \<and> styleAtCursor acc = Some [] \<and>
     tok_string token = ''a'' \<and> tok_style token = ''atom'' \<and>
     tok_string t = ''a'' \<and> tok_style t = ''atom''" by blast
next
  obtain token h acc where
    run: "runOnlineParser charParser ''Fb'' (atCursor \<lparr>row = 0, column = 1\<rparr>) noCapture
            = Some (token, h, acc)"
    and cap: "stringAtCursor acc = Some ''F''" "styleAtCursor acc = Some ''keyword''"
    and fin: "tok_string token = ''b''" "tok_style token = ''atom''"
    by (simp add: eval_defs charParser_def)
  obtain t where t: "getTokenAtPosition charParser ''Fb'' \<lparr>row = 0, column = 1\<rparr> = Some t"
    by (simp add: eval_defs charParser_def)
  from fallback_by_truthiness[OF run t] cap
  have "tok_string t = ''F''" "tok_style t = ''keyword''" by simp_all
  with run t cap fin show "\<exists>token h acc t.
     runOnlineParser charParser ''Fb'' (atCursor \<lparr>row = 0, column = 1\<rparr>) noCapture
       = Some (token, h, acc) \<and>
     getTokenAtPosition charParser ''Fb'' \<lparr>row = 0, column = 1\<rparr> = Some t \<and>
     stringAtCursor acc = Some ''F'' \<and> styleAtCursor acc = Some ''keyword'' \<and>
     tok_string token = ''b'' \<and> tok_style token = ''atom'' \<and>
     tok_string t = ''F'' \<and> tok_style t = ''keyword''" by blast
next
  obtain token h acc where
    run: "runOnlineParser charParser ''Fb'' (atCursor \<lparr>row = 0, column = 0\<rparr>) noCapture
            = Some (token, h, acc)"
    and cap: "stringAtCursor acc = None" "styleAtCursor acc = None"
    and fin: "tok_string token = ''F''" "tok_style token = ''keyword''"
    by (simp add: eval_defs charParser_def)
  obtain t where t: "getTokenAtPosition charParser ''Fb'' \<lparr>row = 0, column = 0\<rparr> = Some t"
    by (simp add: eval_defs charParser_def)
  from fallback_by_truthiness[OF run t] cap fin
  have "tok_string t = ''F''" "tok_style t = ''keyword''" by simp_all
  with run t cap fin show "\<exists>token h acc t.
     runOnlineParser charParser ''Fb'' (atCursor \<lparr>row = 0, column = 0\<rparr>) noCapture
       = Some (token, h, acc) \<and>
     getTokenAtPosition charParser ''Fb'' \<lparr>row = 0, column = 0\<rparr> = Some t \<and>
     stringAtCursor acc = None \<and> styleAtCursor acc = None \<and>
     tok_string token = ''F'' \<and> tok_style token = ''keyword'' \<and>
     tok_string t = ''F'' \<and> tok_style t = ''keyword''" by blast
qed

end
